theory Spec2Isabelle
  imports Complex_Main "HOL-Library.Log_Nat"
begin

section \<open>JavaScript numbers and dates\<close>

text \<open>
  A JavaScript number is an IEEE-754 binary64 value: a finite double, one of the two
  infinities, or NaN. \<open>Finite r\<close> is the number that the rational \<open>r\<close> rounds to
  (\<open>dbl\<close> below): the double of value \<open>r\<close> when there is one, and otherwise the
  number that the decimal literal \<open>r\<close> denotes, so that \<open>Finite (3 / 10)\<close> is the
  number \<open>0.3\<close>. The two zeros are one value: the program never divides by a zero
  that it has computed, and nothing else that it does tells them apart.
\<close>

datatype jsnum = Finite rat | PosInf | NegInf | NaN

definition pow2 :: "int \<Rightarrow> rat" where
  "pow2 k = (if 0 \<le> k then 2 ^ nat k else 1 / 2 ^ nat (- k))"

text \<open>The binary exponent of a positive rational: the \<open>e\<close> with \<open>2^e \<le> x < 2^(e+1)\<close>.\<close>

definition exponentOf :: "rat \<Rightarrow> int" where
  "exponentOf x =
     (if 1 \<le> x then bitlen (floor x) - 1
      else (let k = bitlen (floor (1 / x)) - 1
            in if x * pow2 k = 1 then - k else - k - 1))"

text \<open>The nearest integer, a tie going to the even one.\<close>

definition roundHalfEven :: "rat \<Rightarrow> int" where
  "roundHalfEven r =
     (let f = floor r; d = r - of_int f
      in if d < 1 / 2 then f else if 1 / 2 < d then f + 1 else if even f then f else f + 1)"

text \<open>
  The rounding that every arithmetic operation and every decimal literal ends with:
  the double nearest to the exact result, a tie going to the even significand. A
  double has a significand of 53 bits at an exponent that is at least -1022 (below
  it the doubles are the multiples of \<open>2^-1074\<close>); a result that rounds to
  \<open>2^1024\<close> or beyond is an infinity. The result is given by its exact value.
\<close>

definition roundDouble :: "rat \<Rightarrow> jsnum" where
  "roundDouble x =
     (if x = 0 then Finite 0
      else (let e = max (exponentOf \<bar>x\<bar>) (- 1022);
                m = roundHalfEven (x / pow2 (e - 52))
            in if 1024 \<le> e \<or> (e = 1023 \<and> 2 ^ 53 \<le> \<bar>m\<bar>)
               then (if 0 < x then PosInf else NegInf)
               else Finite (of_int m * pow2 (e - 52))))"

text \<open>
  The number that a value of the model stands for, given by its exact value. A number
  given by its exact value stands for itself (lemma \<open>dbl_idem\<close>).
\<close>

definition dbl :: "jsnum \<Rightarrow> jsnum" where
  "dbl v = (case v of Finite x \<Rightarrow> roundDouble x | _ \<Rightarrow> v)"

definition isFinite :: "jsnum \<Rightarrow> bool" where
  "isFinite v = (case dbl v of Finite x \<Rightarrow> True | _ \<Rightarrow> False)"

text \<open>The sign of a number, for the products and quotients of infinities.\<close>

definition signOf :: "jsnum \<Rightarrow> int" where
  "signOf v = (case v of Finite x \<Rightarrow> (if x < 0 then - 1 else if x = 0 then 0 else 1)
                 | PosInf \<Rightarrow> 1 | NegInf \<Rightarrow> - 1 | NaN \<Rightarrow> 0)"

definition signedInf :: "int \<Rightarrow> jsnum" where
  "signedInf s = (if s = 0 then NaN else if 0 < s then PosInf else NegInf)"

text \<open>
  The operators \<open>a * b\<close>, \<open>a - b\<close> and \<open>a / b\<close>: first on two doubles given by their
  exact values, then on the numbers of the model.
\<close>

fun mulDouble :: "jsnum \<Rightarrow> jsnum \<Rightarrow> jsnum" where
  "mulDouble (Finite x) (Finite y) = roundDouble (x * y)"
| "mulDouble NaN b = NaN"
| "mulDouble a NaN = NaN"
| "mulDouble a b = signedInf (signOf a * signOf b)"

definition jsMul :: "jsnum \<Rightarrow> jsnum \<Rightarrow> jsnum" where
  "jsMul a b = mulDouble (dbl a) (dbl b)"

fun subDouble :: "jsnum \<Rightarrow> jsnum \<Rightarrow> jsnum" where
  "subDouble (Finite x) (Finite y) = roundDouble (x - y)"
| "subDouble NaN b = NaN"
| "subDouble a NaN = NaN"
| "subDouble PosInf PosInf = NaN"
| "subDouble NegInf NegInf = NaN"
| "subDouble PosInf b = PosInf"
| "subDouble NegInf b = NegInf"
| "subDouble a PosInf = NegInf"
| "subDouble a NegInf = PosInf"

definition jsSub :: "jsnum \<Rightarrow> jsnum \<Rightarrow> jsnum" where
  "jsSub a b = subDouble (dbl a) (dbl b)"

text \<open>A zero divisor is taken as the positive zero.\<close>

fun divDouble :: "jsnum \<Rightarrow> jsnum \<Rightarrow> jsnum" where
  "divDouble (Finite x) (Finite y) =
     (if y = 0 then signedInf (signOf (Finite x)) else roundDouble (x / y))"
| "divDouble NaN b = NaN"
| "divDouble a NaN = NaN"
| "divDouble (Finite x) b = Finite 0"
| "divDouble a (Finite y) = signedInf (signOf a * (if y < 0 then - 1 else 1))"
| "divDouble a b = NaN"

definition jsDiv :: "jsnum \<Rightarrow> jsnum \<Rightarrow> jsnum" where
  "jsDiv a b = divDouble (dbl a) (dbl b)"

text \<open>The comparisons \<open>a < b\<close> and \<open>a >= b\<close>: false when an operand is NaN.\<close>

fun lessDouble :: "jsnum \<Rightarrow> jsnum \<Rightarrow> bool" where
  "lessDouble (Finite x) (Finite y) = (x < y)"
| "lessDouble NaN b = False"
| "lessDouble a NaN = False"
| "lessDouble a NegInf = False"
| "lessDouble PosInf b = False"
| "lessDouble a b = True"

definition jsLess :: "jsnum \<Rightarrow> jsnum \<Rightarrow> bool" where
  "jsLess a b = lessDouble (dbl a) (dbl b)"

definition jsGe :: "jsnum \<Rightarrow> jsnum \<Rightarrow> bool" where
  "jsGe a b = (dbl a \<noteq> NaN \<and> dbl b \<noteq> NaN \<and> \<not> lessDouble (dbl a) (dbl b))"

text \<open>\<open>Math.max(a, b)\<close>\<close>

definition jsMax :: "jsnum \<Rightarrow> jsnum \<Rightarrow> jsnum" where
  "jsMax a b = (if dbl a = NaN \<or> dbl b = NaN then NaN
                else if lessDouble (dbl a) (dbl b) then dbl b else dbl a)"

text \<open>
  \<open>Number(x.toFixed(2))\<close>. \<open>toFixed\<close> prints the integer \<open>n\<close> for which \<open>n / 100\<close>
  is nearest to the value of the double, the larger \<open>n\<close> on a tie, after taking the
  sign off; from \<open>10^21\<close> on, and for an infinity or NaN, it prints the number as it
  is. \<open>Number\<close> reads the decimal back: the double nearest to \<open>n / 100\<close>.
\<close>

definition toFixed2 :: "jsnum \<Rightarrow> jsnum" where
  "toFixed2 v =
     (case dbl v of
        Finite x \<Rightarrow>
          if 10 ^ 21 \<le> \<bar>x\<bar> then Finite x
          else if x < 0 then roundDouble (- (of_int (floor (- x * 100 + 1 / 2)) / 100))
          else roundDouble (of_int (floor (x * 100 + 1 / 2)) / 100)
      | other \<Rightarrow> other)"

text \<open>
  \<open>parseMoney(value)\<close>: the argument of the model is the number \<open>Number(value)\<close>;
  the result is this number when it is finite, 0 otherwise.
\<close>

definition parseMoney :: "jsnum \<Rightarrow> jsnum" where
  "parseMoney v = (if isFinite v then dbl v else Finite 0)"

text \<open>
  \<open>clampInt(n, min, max)\<close>, from \<open>Number(n)\<close>: the floor, then \<open>min\<close> when it is
  not finite, then the clamp. The floor of a double is a double.
\<close>

definition clampInt :: "jsnum \<Rightarrow> int \<Rightarrow> int \<Rightarrow> int" where
  "clampInt n lo hi = (case dbl n of Finite r \<Rightarrow> min hi (max lo (floor r)) | _ \<Rightarrow> lo)"

text \<open>
  A \<open>Date\<close> is its time value: milliseconds since the epoch, an integer.
  \<open>toISOString\<close> prints it in UTC as \<open>YYYY-MM-DDTHH:mm:ss.sssZ\<close> (years outside
  0..9999 with a sign and six digits), from the proleptic Gregorian calendar.
\<close>

definition digit :: "int \<Rightarrow> char" where
  "digit n = ''0123456789'' ! nat (n mod 10)"

fun pad :: "nat \<Rightarrow> int \<Rightarrow> string" where
  "pad 0 n = []"
| "pad (Suc k) n = pad k (n div 10) @ [digit n]"

definition msPerDay :: int where
  "msPerDay = 86400000"

text \<open>Year, month and day of a count of days since 1970-01-01.\<close>

definition civilFromDays :: "int \<Rightarrow> int \<times> int \<times> int" where
  "civilFromDays z0 =
     (let z = z0 + 719468;
          era = z div 146097;
          doe = z mod 146097;
          yoe = (doe - doe div 1460 + doe div 36524 - doe div 146096) div 365;
          y = yoe + era * 400;
          doy = doe - (365 * yoe + yoe div 4 - yoe div 100);
          mp = (5 * doy + 2) div 153;
          d = doy - (153 * mp + 2) div 5 + 1;
          m = (if mp < 10 then mp + 3 else mp - 9)
      in (if m \<le> 2 then y + 1 else y, m, d))"

definition yearString :: "int \<Rightarrow> string" where
  "yearString y =
     (if 0 \<le> y \<and> y \<le> 9999 then pad 4 y
      else (if y < 0 then ''-'' else ''+'') @ pad 6 (abs y))"

definition toISOString :: "int \<Rightarrow> string" where
  "toISOString t =
     (let day = t div msPerDay;
          ms = t mod msPerDay;
          ymd = civilFromDays day
      in yearString (fst ymd) @ ''-'' @ pad 2 (fst (snd ymd)) @ ''-'' @ pad 2 (snd (snd ymd))
         @ ''T'' @ pad 2 (ms div 3600000) @ '':'' @ pad 2 (ms div 60000 mod 60)
         @ '':'' @ pad 2 (ms div 1000 mod 60) @ ''.'' @ pad 3 (ms mod 1000) @ ''Z'')"

text \<open>\<open>nowISO()\<close> at the clock reading \<open>now\<close>.\<close>

definition nowISO :: "int \<Rightarrow> string" where
  "nowISO now = toISOString now"

text \<open>
  The calendar day of a clock reading in local time, for a zone \<open>tz\<close> minutes east
  of UTC, written as \<open>YYYY-MM-DD\<close>. It is the day that \<open>startOfDay\<close> and
  \<open>toLocaleDateString\<close> take elsewhere in the program, and the day that the
  specification's words "date-only string in local time" denote.
\<close>

definition specLocalDay :: "int \<Rightarrow> int \<Rightarrow> string" where
  "specLocalDay tz t = take 10 (toISOString (t + tz * 60000))"

section \<open>Domain state\<close>

record Product =
  product_id :: int
  product_name :: string
  category :: string
  cost :: jsnum
  price :: jsnum
  stock :: int
  stockMin :: int

record Sale =
  sale_id :: int
  sale_at :: string
  productId :: int
  qty :: int
  unitPrice :: jsnum
  unitCost :: jsnum
  sale_total :: jsnum
  profit :: jsnum
  sale_notes :: "string option"

record Expense =
  expense_id :: int
  expense_at :: string
  expense_type :: string
  amount :: jsnum
  description :: "string option"

record TableSession =
  session_id :: int
  table_no :: int
  players :: int
  rate :: jsnum
  startAt :: string
  endAt :: "string option"
  active :: bool
  session_total :: "jsnum option"

record Business =
  business_name :: string
  currency :: string

record DomainState =
  version :: int
  business :: Business
  products :: "Product list"
  sales :: "Sale list"
  expenses :: "Expense list"
  tables :: "TableSession list"

definition emptyState :: DomainState where
  "emptyState = \<lparr> version = 1,
      business = \<lparr> business_name = ''M&S - Control Finanzas'', currency = ''GTQ'' \<rparr>,
      products = [], sales = [], expenses = [], tables = [] \<rparr>"

definition isStateEmpty :: "DomainState \<Rightarrow> bool" where
  "isStateEmpty s \<longleftrightarrow> products s = [] \<and> sales s = [] \<and> expenses s = [] \<and> tables s = []"

text \<open>
  \<open>deepClone\<close> is a JSON round trip. A state is a tree without sharing, of strings,
  booleans and numbers, and comes back equal as long as its numbers are finite, which
  is all that JSON can write.
\<close>

definition deepClone :: "DomainState \<Rightarrow> DomainState" where
  "deepClone s = s"

section \<open>The key-value store\<close>

text \<open>
  The IndexedDB object store \<open>kv\<close> maps string keys to documents. The documents the
  program writes are of five shapes, one constructor each.
\<close>

record Meta =
  deviceId :: "string option"
  stateUpdatedAt :: "string option"
  stateUpdatedBy :: "string option"
  stateUpdatedSource :: "string option"
  lastSnapshotDay :: "string option"
  legacyBillarMigratedAt :: "string option"
  lastSyncPushAt :: "string option"
  lastSyncPullAt :: "string option"

record SnapshotEntry =
  entry_id :: string
  entry_at :: string
  entry_reason :: string

record Snapshot =
  snapshot_id :: string
  snapshot_at :: string
  snapshot_reason :: string
  snapshot_state :: DomainState

record SyncConfig =
  cfg_url :: string
  cfg_user :: string
  cfg_pass :: string
  cfg_auto :: bool

datatype doc =
    StateDoc DomainState
  | MetaDoc Meta
  | SyncDoc SyncConfig
  | IndexDoc "SnapshotEntry list"
  | SnapshotDoc Snapshot

definition IDB_STATE_KEY :: string where "IDB_STATE_KEY = ''state''"
definition IDB_META_KEY :: string where "IDB_META_KEY = ''meta''"
definition IDB_SYNC_KEY :: string where "IDB_SYNC_KEY = ''syncConfig''"
definition IDB_SNAPSHOT_INDEX_KEY :: string where "IDB_SNAPSHOT_INDEX_KEY = ''snapshotIndex''"
definition IDB_SNAPSHOT_PREFIX :: string where "IDB_SNAPSHOT_PREFIX = ''snapshot:''"
definition MAX_SNAPSHOTS :: nat where "MAX_SNAPSHOTS = 20"

text \<open>
  A rejected promise is an error value. \<open>StorageError\<close> is a failed IndexedDB request,
  \<open>Error msg\<close> is \<open>new Error(msg)\<close>, \<open>HttpStatus n\<close> is \<open>new Error(`HTTP ${n}`)\<close>,
  \<open>InvalidResponse\<close> the error of a response body that is not a JSON object, and
  \<open>NetworkError\<close> a \<open>fetch\<close> that rejects.
\<close>

datatype error = StorageError | Error string | HttpStatus nat | InvalidResponse | NetworkError

text \<open>What leaves the program towards the user and the remote endpoint.\<close>

datatype Dialog = ConfirmOverwriteRemote | ConfirmReplaceLocal | ConfirmDeleteSale

record Payload =
  payload_app :: string
  payload_format :: int
  payload_updatedAt :: "string option"
  payload_updatedBy :: "string option"
  payload_state :: DomainState

datatype Event = Asked Dialog | Put Payload

text \<open>
  The world of an asynchronous function: the store; the variable \<open>state\<close> of
  \<open>init\<close>, which every handler closes over (\<open>live\<close>); the faults the storage
  engine is going to raise; and the trace of confirmation dialogs shown and documents
  sent. Every IndexedDB request takes the next flag of \<open>faults\<close>; the request fails
  when the flag is \<open>True\<close>, and an exhausted list raises no fault.
\<close>

record World =
  store :: "string \<Rightarrow> doc option"
  live :: DomainState
  faults :: "bool list"
  trace :: "Event list"

type_synonym 'a io = "World \<Rightarrow> (error + 'a) \<times> World"

definition ret :: "'a \<Rightarrow> 'a io" where
  "ret x w = (Inr x, w)"

definition throw :: "error \<Rightarrow> 'a io" where
  "throw e w = (Inl e, w)"

text \<open>\<open>await m\<close>, then the rest of the function; a rejection skips the rest.\<close>

definition bind :: "'a io \<Rightarrow> ('a \<Rightarrow> 'b io) \<Rightarrow> 'b io" where
  "bind m f w = (case m w of (Inl e, w') \<Rightarrow> (Inl e, w') | (Inr x, w') \<Rightarrow> f x w')"

text \<open>\<open>try { await m } catch { /* ignore */ }\<close>\<close>

definition tryIgnore :: "unit io \<Rightarrow> unit io" where
  "tryIgnore m w = (case m w of (Inl e, w') \<Rightarrow> (Inr (), w') | (Inr x, w') \<Rightarrow> (Inr (), w'))"

definition idbRequest :: "((string \<Rightarrow> doc option) \<Rightarrow> 'a \<times> (string \<Rightarrow> doc option)) \<Rightarrow> 'a io" where
  "idbRequest f w =
     (case faults w of
        True # fs \<Rightarrow> (Inl StorageError, w\<lparr>faults := fs\<rparr>)
      | _ \<Rightarrow> (Inr (fst (f (store w))), w\<lparr>store := snd (f (store w)), faults := tl (faults w)\<rparr>))"

definition idbGet :: "string \<Rightarrow> doc option io" where
  "idbGet key = idbRequest (\<lambda>st. (st key, st))"

definition idbSet :: "string \<Rightarrow> doc \<Rightarrow> unit io" where
  "idbSet key v = idbRequest (\<lambda>st. ((), st(key \<mapsto> v)))"

definition idbClearAll :: "unit io" where
  "idbClearAll = idbRequest (\<lambda>st. ((), Map.empty))"

definition idbDelete :: "string \<Rightarrow> unit io" where
  "idbDelete key = idbRequest (\<lambda>st. ((), st(key := None)))"

text \<open>
  Truthiness of an optional string: absent (\<open>undefined\<close>, \<open>null\<close>) and the empty
  string are falsy. \<open>orElse a b\<close> is \<open>a || b\<close>.
\<close>

definition truthy :: "string option \<Rightarrow> bool" where
  "truthy v = (case v of None \<Rightarrow> False | Some s \<Rightarrow> s \<noteq> [])"

definition orElse :: "string option \<Rightarrow> string option \<Rightarrow> string option" where
  "orElse a b = (if truthy a then a else b)"

text \<open>\<open>strOr v d\<close> is \<open>String(v || d)\<close> for a string \<open>d\<close>.\<close>

definition strOr :: "string option \<Rightarrow> string \<Rightarrow> string" where
  "strOr v d = (case v of None \<Rightarrow> d | Some s \<Rightarrow> if s = [] then d else s)"

section \<open>Metadata record and state repository\<close>

definition emptyMeta :: Meta where
  "emptyMeta = \<lparr> deviceId = None, stateUpdatedAt = None, stateUpdatedBy = None,
      stateUpdatedSource = None, lastSnapshotDay = None, legacyBillarMigratedAt = None,
      lastSyncPushAt = None, lastSyncPullAt = None \<rparr>"

text \<open>
  \<open>getMeta\<close>: the stored object, or \<open>{}\<close>. A document of another shape under the
  metadata key has none of the metadata fields and reads as \<open>{}\<close>.
\<close>

definition getMeta :: "Meta io" where
  "getMeta = bind (idbGet IDB_META_KEY)
     (\<lambda>d. ret (case d of Some (MetaDoc m) \<Rightarrow> m | _ \<Rightarrow> emptyMeta))"

definition setMeta :: "Meta \<Rightarrow> unit io" where
  "setMeta meta = idbSet IDB_META_KEY (MetaDoc meta)"


record SaveOptions =
  opt_updatedAt :: "string option"
  opt_updatedBy :: "string option"
  opt_source :: "string option"

text \<open>A call \<open>saveState(state)\<close> without the second argument.\<close>

definition noOptions :: SaveOptions where
  "noOptions = \<lparr> opt_updatedAt = None, opt_updatedBy = None, opt_source = None \<rparr>"

text \<open>
  \<open>saveState(state, options)\<close>; \<open>now\<close> is the clock read by \<open>nowISO()\<close> and \<open>rid\<close>
  the result of \<open>randomId()\<close>, each used only where the source calls it.
\<close>

definition saveState :: "DomainState \<Rightarrow> SaveOptions \<Rightarrow> int \<Rightarrow> string \<Rightarrow> unit io" where
  "saveState s options now rid =
     bind (idbSet IDB_STATE_KEY (StateDoc s)) (\<lambda>_.
       tryIgnore (bind getMeta (\<lambda>meta.
         let dev = orElse (deviceId meta) (Some rid)
         in setMeta (meta\<lparr> deviceId := dev,
              stateUpdatedAt := orElse (opt_updatedAt options) (Some (nowISO now)),
              stateUpdatedBy := orElse (opt_updatedBy options) dev,
              stateUpdatedSource := orElse (opt_source options) (Some ''local'') \<rparr>))))"

section \<open>Snapshot engine\<close>

definition listSnapshots :: "SnapshotEntry list io" where
  "listSnapshots = bind (idbGet IDB_SNAPSHOT_INDEX_KEY)
     (\<lambda>d. ret (case d of Some (IndexDoc idx) \<Rightarrow> idx | _ \<Rightarrow> []))"

text \<open>
  The trimming loop of \<open>createSnapshot\<close>: while the index is longer than
  \<open>MAX_SNAPSHOTS\<close>, pop its last entry and delete that body, ignoring a failed delete.
\<close>

function trimSnapshots :: "SnapshotEntry list \<Rightarrow> SnapshotEntry list io" where
  "trimSnapshots idx w =
     (if length idx > MAX_SNAPSHOTS then
        (if entry_id (last idx) \<noteq> []
         then trimSnapshots (butlast idx)
                (snd (idbDelete (IDB_SNAPSHOT_PREFIX @ entry_id (last idx)) w))
         else trimSnapshots (butlast idx) w)
      else (Inr idx, w))"
  by pat_completeness auto
termination
  by (relation "measure (\<lambda>(idx, w). length idx)") auto

definition createSnapshot :: "DomainState \<Rightarrow> string \<Rightarrow> int \<Rightarrow> Snapshot io" where
  "createSnapshot s reason now =
     (let ts = nowISO now;
          snapshot = \<lparr> snapshot_id = ts, snapshot_at = ts,
                       snapshot_reason = (if reason = [] then ''manual'' else reason),
                       snapshot_state = deepClone s \<rparr>
      in bind (idbSet (IDB_SNAPSHOT_PREFIX @ ts) (SnapshotDoc snapshot)) (\<lambda>_.
         bind listSnapshots (\<lambda>idx.
         bind (trimSnapshots
                 (\<lparr> entry_id = ts, entry_at = ts, entry_reason = snapshot_reason snapshot \<rparr> # idx))
           (\<lambda>idx'.
         bind (idbSet IDB_SNAPSHOT_INDEX_KEY (IndexDoc idx')) (\<lambda>_. ret snapshot)))))"

text \<open>
  \<open>ensureDailySnapshot(state)\<close>; \<open>tToday\<close> is the clock read by \<open>new Date()\<close> for
  \<open>today\<close>, \<open>tSnap\<close> the later reading inside \<open>createSnapshot\<close>.
\<close>

definition ensureDailySnapshot :: "DomainState \<Rightarrow> int \<Rightarrow> int \<Rightarrow> unit io" where
  "ensureDailySnapshot s tToday tSnap =
     (if isStateEmpty s then ret ()
      else bind getMeta (\<lambda>meta.
        let today = take 10 (toISOString tToday)
        in if lastSnapshotDay meta = Some today then ret ()
           else bind (createSnapshot s ''auto-diario'' tSnap) (\<lambda>_.
                setMeta (meta\<lparr>lastSnapshotDay := Some today\<rparr>))))"

text \<open>
  Reading a snapshot body back, as the restore and download buttons do:
  \<open>idbGet(IDB_SNAPSHOT_PREFIX + id)\<close>, and "not found" unless it has a state.
\<close>

definition getSnapshotState :: "string \<Rightarrow> DomainState option io" where
  "getSnapshotState sid = bind (idbGet (IDB_SNAPSHOT_PREFIX @ sid))
     (\<lambda>d. ret (case d of Some (SnapshotDoc snap) \<Rightarrow> Some (snapshot_state snap) | _ \<Rightarrow> None))"

section \<open>Sync client\<close>

text \<open>
  The \<open>state\<close> field of a remote document is untyped JSON: absent or falsy, a truthy
  value that is not an object, or an object whose four collections are each an array
  (\<open>Some\<close>) or not (\<open>None\<close>).
\<close>

record RawState =
  raw_version :: int
  raw_business :: Business
  raw_products :: "Product list option"
  raw_sales :: "Sale list option"
  raw_expenses :: "Expense list option"
  raw_tables :: "TableSession list option"

datatype RemoteStateField = Absent | NotObject | Obj RawState

record RemoteDoc =
  remote_updatedAt :: "string option"
  remote_meta_updatedAt :: "string option"
  remote_updatedBy :: "string option"
  remote_state :: RemoteStateField

definition isValidStateShape :: "RemoteStateField \<Rightarrow> bool" where
  "isValidStateShape s =
     (case s of
        Obj r \<Rightarrow> raw_products r \<noteq> None \<and> raw_sales r \<noteq> None
                 \<and> raw_expenses r \<noteq> None \<and> raw_tables r \<noteq> None
      | _ \<Rightarrow> False)"

text \<open>
  The assignment \<open>state = remote.state\<close>, read at the type of the domain state. The
  program makes it only after \<open>isValidStateShape\<close> has held.
\<close>

definition asDomainState :: "RemoteStateField \<Rightarrow> DomainState" where
  "asDomainState s =
     (case s of
        Obj r \<Rightarrow> \<lparr> version = raw_version r, business = raw_business r,
                   products = (case raw_products r of Some xs \<Rightarrow> xs | None \<Rightarrow> []),
                   sales = (case raw_sales r of Some xs \<Rightarrow> xs | None \<Rightarrow> []),
                   expenses = (case raw_expenses r of Some xs \<Rightarrow> xs | None \<Rightarrow> []),
                   tables = (case raw_tables r of Some xs \<Rightarrow> xs | None \<Rightarrow> []) \<rparr>
      | _ \<Rightarrow> emptyState)"

text \<open>
  \<open>new Date(string)\<close> is the engine's parser, a parameter \<open>dp\<close> of the model:
  \<open>dp s\<close> is the time value, \<open>None\<close> for an invalid date.
\<close>

type_synonym dateParser = "string \<Rightarrow> int option"

definition parseComparableIso :: "dateParser \<Rightarrow> string option \<Rightarrow> int option" where
  "parseComparableIso dp v = dp (strOr v [])"

definition isoNewerThan :: "dateParser \<Rightarrow> string option \<Rightarrow> string option \<Rightarrow> bool" where
  "isoNewerThan dp a b =
     (let da = parseComparableIso dp a;
          db = parseComparableIso dp b
      in if da = None \<and> db = None then False
         else if da \<noteq> None \<and> db = None then True
         else if da = None \<and> db \<noteq> None then False
         else (case (da, db) of (Some x, Some y) \<Rightarrow> x > y | _ \<Rightarrow> False))"

text \<open>
  The answer of the endpoint to one request: no answer at all, or a status with the
  body read as a JSON object (\<open>None\<close> when it is not one).
\<close>

datatype HttpResult = NetworkFailure | Response nat "RemoteDoc option"

definition ok :: "nat \<Rightarrow> bool" where
  "ok status \<longleftrightarrow> 200 \<le> status \<and> status \<le> 299"

definition fetchRemoteSnapshot :: "HttpResult \<Rightarrow> RemoteDoc option io" where
  "fetchRemoteSnapshot res =
     (case res of
        NetworkFailure \<Rightarrow> throw NetworkError
      | Response status body \<Rightarrow>
          if status = 404 then ret None
          else if \<not> ok status then throw (HttpStatus status)
          else (case body of None \<Rightarrow> throw InvalidResponse | Some parsed \<Rightarrow> ret (Some parsed)))"


text \<open>\<open>confirm(message)\<close>: the dialog is shown, and \<open>answer\<close> is what the user chooses.\<close>

definition confirm :: "Dialog \<Rightarrow> bool \<Rightarrow> bool io" where
  "confirm d answer w = (Inr answer, w\<lparr>trace := trace w @ [Asked d]\<rparr>)"

definition getLive :: "DomainState io" where
  "getLive w = (Inr (live w), w)"

definition setLive :: "DomainState \<Rightarrow> unit io" where
  "setLive s w = (Inr (), w\<lparr>live := s\<rparr>)"

text \<open>
  A string is the sequence of its code units, each below 256. \<open>String.prototype.trim\<close>
  strips white space and line terminators: below 256 these are the tab, the line feed,
  the vertical tab, the form feed, the carriage return, the space and the no-break space.
\<close>

definition isSpace :: "char \<Rightarrow> bool" where
  "isSpace c \<longleftrightarrow>
     c \<in> set [CHR '' '', CHR 0x09, CHR 0x0A, CHR 0x0B, CHR 0x0C, CHR 0x0D, CHR 0xA0]"

definition trim :: "string \<Rightarrow> string" where
  "trim s = rev (dropWhile isSpace (rev (dropWhile isSpace s)))"

text \<open>\<open>persistCfg\<close>: the four fields of the sync form, saved and returned.\<close>

definition setSyncConfig :: "SyncConfig \<Rightarrow> unit io" where
  "setSyncConfig cfg = idbSet IDB_SYNC_KEY (SyncDoc cfg)"

definition persistCfg :: "SyncConfig \<Rightarrow> SyncConfig io" where
  "persistCfg form =
     (let next = \<lparr> cfg_url = trim (cfg_url form), cfg_user = trim (cfg_user form),
                   cfg_pass = cfg_pass form, cfg_auto = cfg_auto form \<rparr>
      in bind (setSyncConfig next) (\<lambda>_. ret next))"

text \<open>How a click on a sync button ends.\<close>

datatype SyncStatus =
    MissingUrl
  | Cancelled
  | NoRemoteData
  | Done
  | Failed error
  | Uncaught error



text \<open>The body of the \<open>try\<close> of the pull button, with the same inputs.\<close>

definition pullBody :: "dateParser \<Rightarrow> HttpResult \<Rightarrow> bool \<Rightarrow> int \<Rightarrow> int \<Rightarrow> string \<Rightarrow> SyncStatus io" where
  "pullBody dp getRes answer now1 now2 rid =
     bind (fetchRemoteSnapshot getRes) (\<lambda>remote.
       case remote of
         None \<Rightarrow> ret NoRemoteData
       | Some r \<Rightarrow>
           if remote_state r = Absent then ret NoRemoteData
           else if \<not> isValidStateShape (remote_state r)
           then throw (Error ''El remoto no contiene la estructura esperada.'')
           else
             bind getMeta (\<lambda>meta.
               let localUpdatedAt = orElse (stateUpdatedAt meta) None;
                   remoteUpdatedAt = orElse (remote_updatedAt r) None
               in bind (if truthy localUpdatedAt \<and> isoNewerThan dp localUpdatedAt remoteUpdatedAt
                        then confirm ConfirmReplaceLocal answer else ret True) (\<lambda>go.
                  if \<not> go then ret Cancelled
                  else
                    bind (setLive (asDomainState (remote_state r))) (\<lambda>_.
                    bind (saveState (asDomainState (remote_state r))
                            \<lparr> opt_updatedAt = orElse remoteUpdatedAt (Some (nowISO now1)),
                              opt_updatedBy = orElse (remote_updatedBy r) (deviceId meta),
                              opt_source = Some ''sync-pull'' \<rparr> now1 rid) (\<lambda>_.
                    bind getMeta (\<lambda>m2.
                    bind (setMeta (m2\<lparr>lastSyncPullAt := Some (nowISO now2)\<rparr>)) (\<lambda>_.
                    ret Done)))))))"

definition pullClick :: "dateParser \<Rightarrow> SyncConfig \<Rightarrow> HttpResult \<Rightarrow> bool \<Rightarrow> int \<Rightarrow> int \<Rightarrow> string
    \<Rightarrow> World \<Rightarrow> SyncStatus \<times> World" where
  "pullClick dp form getRes answer now1 now2 rid w =
     (case persistCfg form w of
        (Inl e, w1) \<Rightarrow> (Uncaught e, w1)
      | (Inr c, w1) \<Rightarrow>
          if cfg_url c = [] then (MissingUrl, w1)
          else (case pullBody dp getRes answer now1 now2 rid w1 of
                  (Inl e, w2) \<Rightarrow> (Failed e, w2)
                | (Inr st, w2) \<Rightarrow> (st, w2)))"

section \<open>Legacy importer\<close>

text \<open>
  A legacy record is loosely typed. A numeric field is \<open>undefined\<close>, \<open>null\<close>, or any
  other value, given by its coercion \<open>Number(value)\<close>; a name or category is absent
  (\<open>undefined\<close> or \<open>null\<close>, which \<open>||\<close> treats alike) or the string of its value;
  \<open>activa\<close> is \<open>Some b\<close> when it is the boolean \<open>b\<close>.
\<close>

datatype jsval = Undefined | Null | Val jsnum

definition Number :: "jsval \<Rightarrow> jsnum" where
  "Number v = (case v of Undefined \<Rightarrow> NaN | Null \<Rightarrow> Finite 0 | Val n \<Rightarrow> n)"

text \<open>
  A date field is \<open>undefined\<close>, \<open>null\<close>, a number or a string: \<open>new Date\<close> tells
  them apart. \<open>dateOr a b\<close> is \<open>a || b\<close>: zero, NaN and the empty string are falsy.
\<close>

datatype datefield = DUndefined | DNull | DNum jsnum | DStr string

definition dateOr :: "datefield \<Rightarrow> datefield \<Rightarrow> datefield" where
  "dateOr a b =
     (case a of
        DStr s \<Rightarrow> (if s = [] then b else a)
      | DNum n \<Rightarrow> (if dbl n = Finite 0 \<or> dbl n = NaN then b else a)
      | _ \<Rightarrow> b)"

text \<open>\<open>nullish a b\<close> is \<open>a ?? b\<close>.\<close>

definition nullish :: "jsval \<Rightarrow> jsval \<Rightarrow> jsval" where
  "nullish a b = (case a of Undefined \<Rightarrow> b | Null \<Rightarrow> b | Val n \<Rightarrow> Val n)"

record LegacyProduct =
  lp_nombre :: "string option"
  lp_name :: "string option"
  lp_categoria :: "string option"
  lp_costo :: jsval
  lp_precio :: jsval
  lp_stock :: jsval
  lp_stockMinimo :: jsval

record LegacySale =
  ls_cantidad :: jsval
  ls_qty :: jsval
  ls_precio :: jsval
  ls_unitPrice :: jsval
  ls_total :: jsval
  ls_ganancia :: jsval
  ls_profit :: jsval
  ls_producto :: "string option"
  ls_product :: "string option"
  ls_hora :: datefield
  ls_at :: datefield

record LegacyTable =
  lt_activa :: "bool option"
  lt_inicio :: datefield
  lt_mesa :: jsval
  lt_jugadores :: jsval
  lt_tarifa :: jsval

text \<open>
  The three legacy keys of \<open>localStorage\<close>, each parsed: \<open>Some xs\<close> when the key
  holds a JSON array, \<open>None\<close> otherwise.
\<close>

record Legacy =
  legacyProducts :: "LegacyProduct list option"
  legacySales :: "LegacySale list option"
  legacyTables :: "LegacyTable list option"

text \<open>
  \<open>toLowerCase\<close> on code units below 256: the letters A to Z and the capital letters
  of Latin-1 (\<open>0xC0\<close> to \<open>0xDE\<close> without the multiplication sign \<open>0xD7\<close>) go to
  the letter 32 places on; every other code unit stays.
\<close>

definition lowerChar :: "char \<Rightarrow> char" where
  "lowerChar c =
     (let n = (of_char c :: nat)
      in if (65 \<le> n \<and> n \<le> 90) \<or> (192 \<le> n \<and> n \<le> 222 \<and> n \<noteq> 215) then char_of (n + 32) else c)"

definition toLowerCase :: "string \<Rightarrow> string" where
  "toLowerCase s = map lowerChar s"

definition normalizeName :: "string \<Rightarrow> string" where
  "normalizeName s = toLowerCase (trim s)"

text \<open>
  \<open>parseLegacyDate(value)\<close>: \<open>new Date(undefined)\<close> is an invalid date,
  \<open>new Date(null)\<close> is the epoch, a number is a time value when it is finite and
  at most \<open>8.64e15\<close> in size (its fraction is cut off), and a string goes to the parser.
\<close>

definition parseLegacyDate :: "dateParser \<Rightarrow> datefield \<Rightarrow> int option" where
  "parseLegacyDate dp v =
     (case v of
        DUndefined \<Rightarrow> None
      | DNull \<Rightarrow> Some 0
      | DNum n \<Rightarrow>
          (case dbl n of
             Finite x \<Rightarrow> if \<bar>x\<bar> \<le> 8640000000000000
                         then Some (if 0 \<le> x then floor x else - floor (- x)) else None
           | _ \<Rightarrow> None)
      | DStr s \<Rightarrow> dp s)"

text \<open>
  The state of the import loops: the state under construction, the map \<open>byName\<close>,
  and the number of identifiers drawn so far. \<open>uuid k\<close> is the result of the call
  number \<open>k\<close> of \<open>uuid()\<close>, \<open>clock k\<close> what \<open>new Date()\<close> reads at that point.
\<close>

record Importing =
  next_state :: DomainState
  byName :: "string \<Rightarrow> Product option"
  calls :: nat

definition importProduct :: "(nat \<Rightarrow> int) \<Rightarrow> Importing \<Rightarrow> LegacyProduct \<Rightarrow> Importing" where
  "importProduct uuid acc lp =
     (let name = trim (strOr (orElse (lp_nombre lp) (lp_name lp)) [])
      in if name = [] then acc
         else
           (let product = \<lparr> product_id = uuid (calls acc), product_name = name,
                            category = strOr (lp_categoria lp) ''otro'',
                            cost = parseMoney (Number (lp_costo lp)),
                            price = parseMoney (Number (lp_precio lp)),
                            stock = clampInt (Number (lp_stock lp)) 0 1000000,
                            stockMin = clampInt (Number (lp_stockMinimo lp)) 0 1000000 \<rparr>
            in acc\<lparr> next_state := (next_state acc)\<lparr>products := products (next_state acc) @ [product]\<rparr>,
                    byName := (byName acc)(normalizeName (product_name product) \<mapsto> product),
                    calls := Suc (calls acc) \<rparr>))"

definition importSale :: "dateParser \<Rightarrow> (nat \<Rightarrow> int) \<Rightarrow> (nat \<Rightarrow> int) \<Rightarrow> Importing \<Rightarrow> LegacySale
    \<Rightarrow> Importing" where
  "importSale dp uuid clock acc ls =
     (let q = clampInt (Number (nullish (ls_cantidad ls) (ls_qty ls))) 1 1000000;
          unitPrice = parseMoney (Number (nullish (ls_precio ls) (ls_unitPrice ls)));
          total = parseMoney (Number (nullish (ls_total ls) (Val (jsMul unitPrice (Finite (of_int q))))));
          prof = parseMoney (Number (nullish (ls_ganancia ls) (ls_profit ls)));
          name = trim (strOr (orElse (ls_producto ls) (ls_product ls)) []);
          atDate = (case parseLegacyDate dp (dateOr (ls_hora ls) (ls_at ls)) of
                      Some t \<Rightarrow> t | None \<Rightarrow> clock (calls acc));
          unitProfit = (if q \<noteq> 0 then jsDiv prof (Finite (of_int q)) else Finite 0);
          unitCost = jsMax (Finite 0) (jsSub unitPrice unitProfit);
          placeholder = \<lparr> product_id = uuid (calls acc),
                          product_name = (if name = [] then ''Producto (migrado)'' else name),
                          category = ''otro'',
                          cost = toFixed2 unitCost, price = toFixed2 unitPrice,
                          stock = 0, stockMin = 0 \<rparr>
      in case (case byName acc (normalizeName name) of
                 Some p \<Rightarrow> (p, acc)
               | None \<Rightarrow>
                   (placeholder,
                    acc\<lparr> next_state :=
                           (next_state acc)\<lparr>products := products (next_state acc) @ [placeholder]\<rparr>,
                         byName := (byName acc)(normalizeName (product_name placeholder) \<mapsto> placeholder),
                         calls := Suc (calls acc) \<rparr>))
         of (product, acc1) \<Rightarrow>
           acc1\<lparr> next_state := (next_state acc1)\<lparr>sales := sales (next_state acc1) @
                    [\<lparr> sale_id = uuid (calls acc1), sale_at = toISOString atDate,
                       productId = product_id product, qty = q,
                       unitPrice = toFixed2 unitPrice, unitCost = toFixed2 (cost product),
                       sale_total = toFixed2 total, profit = toFixed2 prof,
                       sale_notes = Some ''Migrado'' \<rparr>]\<rparr>,
                  calls := Suc (calls acc1) \<rparr>)"

definition importTable :: "dateParser \<Rightarrow> (nat \<Rightarrow> int) \<Rightarrow> (nat \<Rightarrow> int) \<Rightarrow> Importing \<Rightarrow> LegacyTable
    \<Rightarrow> Importing" where
  "importTable dp uuid clock acc lt =
     (if lt_activa lt = Some False then acc
      else
        (let startDate = (case parseLegacyDate dp (lt_inicio lt) of
                            Some t \<Rightarrow> t | None \<Rightarrow> clock (calls acc))
         in acc\<lparr> next_state := (next_state acc)\<lparr>tables := tables (next_state acc) @
                    [\<lparr> session_id = uuid (calls acc),
                       table_no = clampInt (Number (lt_mesa lt)) 1 1000000,
                       players = clampInt (Number (lt_jugadores lt)) 1 100,
                       rate = parseMoney (Number (lt_tarifa lt)),
                       startAt = toISOString startDate, endAt = None, active = True,
                       session_total = None \<rparr>]\<rparr>,
                 calls := Suc (calls acc) \<rparr>))"

text \<open>\<open>Array.isArray(v) && v.length\<close>, as a condition.\<close>

definition hasItems :: "'a list option \<Rightarrow> bool" where
  "hasItems v = (case v of Some xs \<Rightarrow> xs \<noteq> [] | None \<Rightarrow> False)"

text \<open>The elements a loop \<open>if (Array.isArray(v)) for (const x of v)\<close> visits.\<close>

definition arrayOr :: "'a list option \<Rightarrow> 'a list" where
  "arrayOr v = (case v of Some xs \<Rightarrow> xs | None \<Rightarrow> [])"

text \<open>
  \<open>migrateFromLegacyBillarLocalStorageIntoState(state)\<close>. The argument \<open>legacy\<close> is
  \<open>None\<close> when reading \<open>localStorage\<close> throws. The result is the pair
  \<open>(state, migrated)\<close>.
\<close>

definition migrateFromLegacyBillarLocalStorageIntoState ::
    "dateParser \<Rightarrow> (nat \<Rightarrow> int) \<Rightarrow> (nat \<Rightarrow> int) \<Rightarrow> Legacy option \<Rightarrow> DomainState
      \<Rightarrow> DomainState \<times> bool" where
  "migrateFromLegacyBillarLocalStorageIntoState dp uuid clock legacy s =
     (if \<not> isStateEmpty s then (s, False)
      else case legacy of
        None \<Rightarrow> (s, False)
      | Some l \<Rightarrow>
          if \<not> (hasItems (legacyProducts l) \<or> hasItems (legacySales l) \<or> hasItems (legacyTables l))
          then (s, False)
          else
            (let acc0 = \<lparr> next_state = emptyState\<lparr>business := business s\<rparr>,
                          byName = Map.empty, calls = 0 \<rparr>;
                 acc1 = foldl (importProduct uuid) acc0 (arrayOr (legacyProducts l));
                 acc2 = foldl (importSale dp uuid clock) acc1 (arrayOr (legacySales l));
                 acc3 = foldl (importTable dp uuid clock) acc2 (arrayOr (legacyTables l))
             in (next_state acc3, True)))"

section \<open>Form handlers\<close>

text \<open>The toast a handler ends with.\<close>

datatype Notice =
    FaltaDato
  | Validacion
  | NoEncontrado
  | Actualizado
  | Agregado
  | StockInsuficiente
  | VentaRegistrada
  | Eliminada
  | MesaActiva
  | MesaIniciada
  | NoNotice

text \<open>\<open>xs.find(P)\<close> followed by an assignment to fields of the element found.\<close>

fun updateFirst :: "('a \<Rightarrow> bool) \<Rightarrow> ('a \<Rightarrow> 'a) \<Rightarrow> 'a list \<Rightarrow> 'a list" where
  "updateFirst P f [] = []"
| "updateFirst P f (x # xs) = (if P x then f x # xs else x # updateFirst P f xs)"

text \<open>
  \<open>rerender()\<close> redraws the page from the state. It changes the state in one place:
  \<open>renderProducts\<close> sorts \<open>state.products\<close> in place, by name under
  \<open>localeCompare(..., 'es')\<close>. The sort with the engine's collation is the parameter
  \<open>byNameEs\<close>.
\<close>

definition rerender :: "(Product list \<Rightarrow> Product list) \<Rightarrow> unit io" where
  "rerender byNameEs = bind getLive (\<lambda>s. setLive (s\<lparr>products := byNameEs (products s)\<rparr>))"

text \<open>
  The submit handler of the product form. \<open>pid\<close> is the hidden identifier (0 for a
  new product), \<open>newId\<close> the result of \<open>uuid()\<close>. The save is not awaited: its
  failure does not reach the handler, and its first request is made after the
  \<open>rerender()\<close> that follows the call, so what it writes is the sorted state.
\<close>

definition productFormSubmit :: "(Product list \<Rightarrow> Product list) \<Rightarrow> int \<Rightarrow> string \<Rightarrow> string
    \<Rightarrow> jsnum \<Rightarrow> jsnum \<Rightarrow> jsnum \<Rightarrow> jsnum \<Rightarrow> int \<Rightarrow> int \<Rightarrow> string \<Rightarrow> Notice io" where
  "productFormSubmit byNameEs pid name0 cat cost0 price0 stock0 stockMin0 newId now rid =
     (let name = trim name0;
          c = parseMoney cost0;
          p = parseMoney price0;
          st = clampInt stock0 0 1000000;
          stMin = clampInt stockMin0 0 1000000
      in if name = [] then ret FaltaDato
         else if \<not> jsGe c (Finite 0) \<or> \<not> jsGe p (Finite 0) \<or> jsLess p c then ret Validacion
         else bind getLive (\<lambda>s.
           if pid \<noteq> 0 then
             (case find (\<lambda>x. product_id x = pid) (products s) of
                None \<Rightarrow> ret NoEncontrado
              | Some found \<Rightarrow>
                  bind (setLive (s\<lparr>products := updateFirst (\<lambda>x. product_id x = pid)
                          (\<lambda>x. x\<lparr> product_name := name, category := cat, cost := c, price := p,
                                  stock := st, stockMin := stMin \<rparr>) (products s)\<rparr>)) (\<lambda>_.
                  bind (rerender byNameEs) (\<lambda>_.
                  bind getLive (\<lambda>s'.
                  bind (tryIgnore (saveState s' noOptions now rid)) (\<lambda>_. ret Actualizado)))))
           else
             bind (setLive (s\<lparr>products := products s @
                     [\<lparr> product_id = newId, product_name = name, category = cat, cost = c,
                        price = p, stock = st, stockMin = stMin \<rparr>]\<rparr>)) (\<lambda>_.
             bind (rerender byNameEs) (\<lambda>_.
             bind getLive (\<lambda>s'.
             bind (tryIgnore (saveState s' noOptions now rid)) (\<lambda>_. ret Agregado))))))"

text \<open>
  The submit handler of the sale form: \<open>pid\<close> is the product chosen, \<open>qty0\<close> and
  \<open>notes0\<close> the fields, \<open>now\<close> and \<open>now2\<close> the clock at \<open>nowISO()\<close> and in the save.
  This handler and the two after it await their save before they call \<open>rerender()\<close>:
  that call is \<open>rerender\<close> above, run after the handler, and it finds the products in
  the order in which the last render has left them.
\<close>

definition saleFormSubmit :: "int \<Rightarrow> jsnum \<Rightarrow> string \<Rightarrow> int \<Rightarrow> int \<Rightarrow> int \<Rightarrow> string \<Rightarrow> Notice io" where
  "saleFormSubmit pid qty0 notes0 newId now now2 rid =
     (let q = clampInt qty0 1 1000000;
          ns = trim notes0
      in bind getLive (\<lambda>s.
           case find (\<lambda>x. product_id x = pid) (products s) of
             None \<Rightarrow> ret FaltaDato
           | Some p \<Rightarrow>
               if stock p < q then ret StockInsuficiente
               else
                 (let total = jsMul (Finite (of_int q)) (price p);
                      prof = jsMul (Finite (of_int q)) (jsSub (price p) (cost p));
                      sale = \<lparr> sale_id = newId, sale_at = nowISO now, productId = product_id p,
                               qty = q, unitPrice = price p, unitCost = cost p,
                               sale_total = total, profit = prof,
                               sale_notes = (if ns = [] then None else Some ns) \<rparr>
                  in bind (setLive (s\<lparr> sales := sales s @ [sale],
                             products := updateFirst (\<lambda>x. product_id x = pid)
                               (\<lambda>x. x\<lparr>stock := stock x - q\<rparr>) (products s) \<rparr>)) (\<lambda>_.
                     bind getLive (\<lambda>s'.
                     bind (saveState s' noOptions now2 rid) (\<lambda>_. ret VentaRegistrada))))))"

text \<open>The delete button of a row of the sales table; \<open>sid\<close> is the row's identifier.\<close>

definition saleDelete :: "int \<Rightarrow> bool \<Rightarrow> int \<Rightarrow> string \<Rightarrow> Notice io" where
  "saleDelete sid answer now rid =
     bind getLive (\<lambda>s.
       case find (\<lambda>x. sale_id x = sid) (sales s) of
         None \<Rightarrow> ret NoNotice
       | Some sale \<Rightarrow>
           bind (confirm ConfirmDeleteSale answer) (\<lambda>go.
             if \<not> go then ret NoNotice
             else
               bind (setLive (s\<lparr>sales := filter (\<lambda>x. sale_id x \<noteq> sid) (sales s)\<rparr>)) (\<lambda>_.
               bind getLive (\<lambda>s'.
               bind (saveState s' noOptions now rid) (\<lambda>_. ret Eliminada)))))"

text \<open>The submit handler of the table form.\<close>

definition tableFormSubmit :: "jsnum \<Rightarrow> jsnum \<Rightarrow> jsnum \<Rightarrow> int \<Rightarrow> int \<Rightarrow> int \<Rightarrow> string \<Rightarrow> Notice io" where
  "tableFormSubmit table0 players0 rate0 newId now now2 rid =
     (let tbl = clampInt table0 1 100;
          pl = clampInt players0 1 50;
          r = parseMoney rate0
      in if \<not> jsLess (Finite 0) r then ret Validacion
         else bind getLive (\<lambda>s.
           case find (\<lambda>t. active t \<and> table_no t = tbl) (tables s) of
             Some existing \<Rightarrow> ret MesaActiva
           | None \<Rightarrow>
               bind (setLive (s\<lparr>tables := tables s @
                       [\<lparr> session_id = newId, table_no = tbl, players = pl, rate = r,
                          startAt = nowISO now, endAt = None, active = True,
                          session_total = None \<rparr>]\<rparr>)) (\<lambda>_.
               bind getLive (\<lambda>s'.
               bind (saveState s' noOptions now2 rid) (\<lambda>_. ret MesaIniciada)))))"

text \<open>The invariants of the data model that the claims are about.\<close>

definition productInv :: "Product \<Rightarrow> bool" where
  "productInv p \<longleftrightarrow> jsGe (price p) (cost p) \<and> stock p \<ge> 0 \<and> stockMin p \<ge> 0"

definition oneActivePerTable :: "DomainState \<Rightarrow> bool" where
  "oneActivePerTable s \<longleftrightarrow> distinct (map table_no (filter active (tables s)))"

section \<open>A date parser for concrete runs\<close>

text \<open>
  The theorems below hold for every parser \<open>dp\<close>. Concrete runs need one: this is
  \<open>Date.parse\<close> on the one format that every engine reads alike, the 24 characters
  \<open>YYYY-MM-DDTHH:mm:ss.sssZ\<close> that \<open>toISOString\<close> prints; any other string is
  taken as an invalid date here.
\<close>

definition digitVal :: "char \<Rightarrow> int option" where
  "digitVal c = (let n = (of_char c :: nat) in if 48 \<le> n \<and> n \<le> 57 then Some (int n - 48) else None)"

fun digitsVal :: "int \<Rightarrow> string \<Rightarrow> int option" where
  "digitsVal acc [] = Some acc"
| "digitsVal acc (c # cs) =
     (case digitVal c of None \<Rightarrow> None | Some d \<Rightarrow> digitsVal (acc * 10 + d) cs)"

definition daysFromCivil :: "int \<Rightarrow> int \<Rightarrow> int \<Rightarrow> int" where
  "daysFromCivil y0 m d =
     (let y = (if m \<le> 2 then y0 - 1 else y0);
          era = y div 400;
          yoe = y - era * 400;
          doy = (153 * (if m > 2 then m - 3 else m + 9) + 2) div 5 + d - 1;
          doe = yoe * 365 + yoe div 4 - yoe div 100 + doy
      in era * 146097 + doe - 719468)"

definition daysInMonth :: "int \<Rightarrow> int \<Rightarrow> int" where
  "daysInMonth y m =
     (if m = 2 then (if y mod 4 = 0 \<and> (y mod 100 \<noteq> 0 \<or> y mod 400 = 0) then 29 else 28)
      else if m = 4 \<or> m = 6 \<or> m = 9 \<or> m = 11 then 30 else 31)"

definition dateParseISO :: "string \<Rightarrow> int option" where
  "dateParseISO s =
     (if length s = 24 \<and> s ! 4 = CHR ''-'' \<and> s ! 7 = CHR ''-'' \<and> s ! 10 = CHR ''T''
         \<and> s ! 13 = CHR '':'' \<and> s ! 16 = CHR '':'' \<and> s ! 19 = CHR ''.'' \<and> s ! 23 = CHR ''Z''
      then
        (case (digitsVal 0 (take 4 s), digitsVal 0 (take 2 (drop 5 s)),
               digitsVal 0 (take 2 (drop 8 s)), digitsVal 0 (take 2 (drop 11 s)),
               digitsVal 0 (take 2 (drop 14 s)), digitsVal 0 (take 2 (drop 17 s)),
               digitsVal 0 (take 3 (drop 20 s))) of
           (Some y, Some m, Some d, Some hh, Some mi, Some ss, Some ms) \<Rightarrow>
             if 1 \<le> m \<and> m \<le> 12 \<and> 1 \<le> d \<and> d \<le> daysInMonth y m \<and> hh \<le> 23 \<and> mi \<le> 59 \<and> ss \<le> 59
             then Some (daysFromCivil y m d * msPerDay + hh * 3600000 + mi * 60000 + ss * 1000 + ms)
             else None
         | _ \<Rightarrow> None)
      else None)"

section \<open>Vocabulary of the statements\<close>

text \<open>The metadata record that \<open>getMeta\<close> reads from a store.\<close>

definition metaOf :: "World \<Rightarrow> Meta" where
  "metaOf w = (case store w IDB_META_KEY of Some (MetaDoc m) \<Rightarrow> m | _ \<Rightarrow> emptyMeta)"



text \<open>The index that \<open>listSnapshots\<close> reads from a store.\<close>

definition snapshotIndex :: "World \<Rightarrow> SnapshotEntry list" where
  "snapshotIndex w = (case store w IDB_SNAPSHOT_INDEX_KEY of Some (IndexDoc idx) \<Rightarrow> idx | _ \<Rightarrow> [])"

text \<open>
  A sequence of calls of \<open>createSnapshot\<close>, oldest first; each call is the state, the
  reason and the clock reading. A call that rejects ends the sequence.
\<close>

fun createSnapshots :: "(DomainState \<times> string \<times> int) list \<Rightarrow> unit io" where
  "createSnapshots [] w = (Inr (), w)"
| "createSnapshots (c # rest) w =
     (case createSnapshot (fst c) (fst (snd c)) (snd (snd c)) w of
        (Inl e, w') \<Rightarrow> (Inl e, w')
      | (Inr snap, w') \<Rightarrow> createSnapshots rest w')"

text \<open>The identifier, the index entry and the body that a call creates.\<close>

definition idOf :: "DomainState \<times> string \<times> int \<Rightarrow> string" where
  "idOf c = nowISO (snd (snd c))"

definition entryOf :: "DomainState \<times> string \<times> int \<Rightarrow> SnapshotEntry" where
  "entryOf c = \<lparr> entry_id = idOf c, entry_at = idOf c,
                 entry_reason = (if fst (snd c) = [] then ''manual'' else fst (snd c)) \<rparr>"

definition snapshotOf :: "DomainState \<times> string \<times> int \<Rightarrow> Snapshot" where
  "snapshotOf c = \<lparr> snapshot_id = idOf c, snapshot_at = idOf c,
                    snapshot_reason = (if fst (snd c) = [] then ''manual'' else fst (snd c)),
                    snapshot_state = fst c \<rparr>"

text \<open>
  The invariant of the snapshot store after the calls \<open>xs\<close> (newest first): the index
  lists the newest \<open>MAX_SNAPSHOTS\<close>, their bodies are stored, the older bodies are gone.
\<close>

definition snapshotsKept :: "(DomainState \<times> string \<times> int) list \<Rightarrow> World \<Rightarrow> bool" where
  "snapshotsKept xs w \<longleftrightarrow>
     faults w = []
     \<and> snapshotIndex w = take MAX_SNAPSHOTS (map entryOf xs)
     \<and> (\<forall>c \<in> set (take MAX_SNAPSHOTS xs).
           store w (IDB_SNAPSHOT_PREFIX @ idOf c) = Some (SnapshotDoc (snapshotOf c)))
     \<and> (\<forall>c \<in> set (drop MAX_SNAPSHOTS xs). store w (IDB_SNAPSHOT_PREFIX @ idOf c) = None)"

section \<open>Concrete inputs\<close>

text \<open>A new installation: an empty store, the empty state, no fault to come.\<close>

definition freshWorld :: World where
  "freshWorld = \<lparr> store = Map.empty, live = emptyState, faults = [], trace = [] \<rparr>"

text \<open>A store whose metadata record holds a device and the time of the last save.\<close>

definition stampedWorld :: "string \<Rightarrow> World" where
  "stampedWorld stamp = freshWorld\<lparr>store := [IDB_META_KEY \<mapsto> MetaDoc (emptyMeta\<lparr>deviceId := Some ''this-device'', stateUpdatedAt := Some stamp\<rparr>)]\<rparr>"

text \<open>The sync form, filled with a URL.\<close>

definition exForm :: SyncConfig where
  "exForm = \<lparr> cfg_url = ''https://dav.example/finanzas.json'', cfg_user = [], cfg_pass = [], cfg_auto = False \<rparr>"


text \<open>A remote document whose state has no array of expenses.\<close>

definition exBadRemote :: RemoteDoc where
  "exBadRemote = \<lparr> remote_updatedAt = Some ''2024-01-02T00:00:00.000Z'', remote_meta_updatedAt = None,
      remote_updatedBy = Some ''other-device'',
      remote_state = Obj \<lparr> raw_version = 1, raw_business = business emptyState,
        raw_products = Some [], raw_sales = Some [], raw_expenses = None, raw_tables = Some [] \<rparr> \<rparr>"

text \<open>The product of the scenario: Soda, cost 5, price 8, stock 10, minimum 2.\<close>

definition exState :: DomainState where
  "exState = emptyState\<lparr>products := [\<lparr> product_id = 1, product_name = ''Soda'', category = ''bebida'',
      cost = Finite 5, price = Finite 8, stock = 10, stockMin = 2 \<rparr>]\<rparr>"

text \<open>A product priced in cents: cost 0.10, price 0.30, stock 10.\<close>

definition exCents :: DomainState where
  "exCents = emptyState\<lparr>products := [\<lparr> product_id = 2, product_name = ''Chicle'', category = ''otro'',
      cost = Finite (1 / 10), price = Finite (3 / 10), stock = 10, stockMin = 0 \<rparr>]\<rparr>"

text \<open>A ledger with two sales, one expense and one open table, for concrete runs.\<close>

definition exLedger :: DomainState where
  "exLedger = exState\<lparr>
     sales := [\<lparr> sale_id = 11, sale_at = ''2024-01-01T10:00:00.000Z'', productId = 1, qty = 3,
                  unitPrice = Finite 8, unitCost = Finite 5, sale_total = Finite 24,
                  profit = Finite 9, sale_notes = None \<rparr>,
               \<lparr> sale_id = 12, sale_at = ''2024-01-01T11:00:00.000Z'', productId = 1, qty = 1,
                  unitPrice = Finite 8, unitCost = Finite 5, sale_total = Finite 8,
                  profit = Finite 3, sale_notes = None \<rparr>],
     expenses := [\<lparr> expense_id = 21, expense_at = ''2024-01-01T12:00:00.000Z'', expense_type = ''luz'',
                     amount = Finite 50, description = None \<rparr>],
     tables := [\<lparr> session_id = 31, table_no = 1, players = 2, rate = Finite 10,
                   startAt = ''2024-01-01T09:00:00.000Z'', endAt = None, active = True,
                   session_total = None \<rparr>] \<rparr>"

text \<open>Twenty-two manual snapshots of one state, one millisecond apart.\<close>

definition exCalls :: "(DomainState \<times> string \<times> int) list" where
  "exCalls = map (\<lambda>t. (exState, ''manual'', t)) [0..21]"

text \<open>Legacy storage with one product priced below its cost and one sale at a loss.\<close>

definition exLegacyLoss :: Legacy where
  "exLegacyLoss = \<lparr>
     legacyProducts = Some [\<lparr> lp_nombre = Some ''Soda'', lp_name = None, lp_categoria = None,
        lp_costo = Val (Finite 10), lp_precio = Val (Finite 5), lp_stock = Val (Finite 3),
        lp_stockMinimo = Val (Finite 1) \<rparr>],
     legacySales = Some [\<lparr> ls_cantidad = Val (Finite 1), ls_qty = Undefined,
        ls_precio = Val (Finite 10), ls_unitPrice = Undefined, ls_total = Val (Finite 10),
        ls_ganancia = Val (Finite (- 5)), ls_profit = Undefined, ls_producto = Some ''Taco'',
        ls_product = None, ls_hora = DUndefined, ls_at = DUndefined \<rparr>],
     legacyTables = None \<rparr>"

text \<open>Legacy storage with two open sessions on table 1.\<close>

definition exLegacyTables :: Legacy where
  "exLegacyTables = \<lparr> legacyProducts = None, legacySales = None,
     legacyTables = Some [\<lparr> lt_activa = Some True, lt_inicio = DUndefined, lt_mesa = Val (Finite 1),
                            lt_jugadores = Val (Finite 2), lt_tarifa = Val (Finite 10) \<rparr>,
                          \<lparr> lt_activa = None, lt_inicio = DUndefined, lt_mesa = Val (Finite 1),
                            lt_jugadores = Val (Finite 3), lt_tarifa = Val (Finite 10) \<rparr>] \<rparr>"

section \<open>Facts about the store and its requests\<close>

lemma World_faults_nil [simp]: "faults w = [] \<Longrightarrow> w\<lparr>faults := []\<rparr> = w"
  by (cases w) simp

lemma idbRequest_fail: "faults w = True # fs \<Longrightarrow> idbRequest f w = (Inl StorageError, w\<lparr>faults := fs\<rparr>)"
  by (simp add: idbRequest_def)

lemma idbRequest_pass:
  "take 1 (faults w) \<noteq> [True] \<Longrightarrow>
   idbRequest f w = (Inr (fst (f (store w))), w\<lparr>store := snd (f (store w)), faults := tl (faults w)\<rparr>)"
  by (auto simp: idbRequest_def split: list.splits bool.splits)

lemma idbGet_ok: "faults w = [] \<Longrightarrow> idbGet k w = (Inr (store w k), w)"
  by (simp add: idbGet_def idbRequest_def)

lemma idbSet_ok: "faults w = [] \<Longrightarrow> idbSet k v w = (Inr (), w\<lparr>store := (store w)(k \<mapsto> v)\<rparr>)"
  by (simp add: idbSet_def idbRequest_def)

lemma idbDelete_ok: "faults w = [] \<Longrightarrow> idbDelete k w = (Inr (), w\<lparr>store := (store w)(k := None)\<rparr>)"
  by (simp add: idbDelete_def idbRequest_def)

lemma bind_Inr: "m w = (Inr x, w') \<Longrightarrow> bind m f w = f x w'"
  by (simp add: bind_def)

lemma bind_Inl: "m w = (Inl e, w') \<Longrightarrow> bind m f w = (Inl e, w')"
  by (simp add: bind_def)

lemma bind_ret [simp]: "bind (ret x) f w = f x w"
  by (simp add: bind_def ret_def)

lemma bind_throw [simp]: "bind (throw e) f w = (Inl e, w)"
  by (simp add: bind_def throw_def)

lemma bind_getLive: "bind getLive f w = f (live w) w"
  by (simp add: bind_def getLive_def)

lemma bind_setLive: "bind (setLive s) f w = f () (w\<lparr>live := s\<rparr>)"
  by (simp add: bind_def setLive_def)

lemma getMeta_ok: "faults w = [] \<Longrightarrow> getMeta w = (Inr (metaOf w), w)"
  by (simp add: getMeta_def metaOf_def bind_def idbGet_ok ret_def)

lemma snapkey_ne_index [simp]:
  "IDB_SNAPSHOT_PREFIX @ x \<noteq> IDB_SNAPSHOT_INDEX_KEY" "IDB_SNAPSHOT_INDEX_KEY \<noteq> IDB_SNAPSHOT_PREFIX @ x"
  by (auto simp: IDB_SNAPSHOT_PREFIX_def IDB_SNAPSHOT_INDEX_KEY_def)

lemma snapkey_ne_meta [simp]:
  "IDB_SNAPSHOT_PREFIX @ x \<noteq> IDB_META_KEY" "IDB_META_KEY \<noteq> IDB_SNAPSHOT_PREFIX @ x"
  "IDB_SNAPSHOT_INDEX_KEY \<noteq> IDB_META_KEY" "IDB_META_KEY \<noteq> IDB_SNAPSHOT_INDEX_KEY"
  by (auto simp: IDB_SNAPSHOT_PREFIX_def IDB_META_KEY_def IDB_SNAPSHOT_INDEX_KEY_def)

lemma metaOf_sync [simp]: "metaOf (w\<lparr>store := (store w)(IDB_SYNC_KEY \<mapsto> d)\<rparr>) = metaOf w"
  by (simp add: metaOf_def IDB_SYNC_KEY_def IDB_META_KEY_def)

lemma metaOf_state [simp]: "metaOf (w\<lparr>store := (store w)(IDB_STATE_KEY \<mapsto> d)\<rparr>) = metaOf w"
  by (simp add: metaOf_def IDB_STATE_KEY_def IDB_META_KEY_def)

lemma metaOf_upd [simp]:
  "metaOf (w\<lparr>store := (st)(IDB_META_KEY \<mapsto> MetaDoc m)\<rparr>) = m"
  by (simp add: metaOf_def)

lemma metaOf_snap [simp]:
  "metaOf (w\<lparr>store := (st)(IDB_SNAPSHOT_INDEX_KEY \<mapsto> d)\<rparr>) = metaOf (w\<lparr>store := st\<rparr>)"
  "metaOf (w\<lparr>store := (st)(IDB_SNAPSHOT_PREFIX @ k \<mapsto> d)\<rparr>) = metaOf (w\<lparr>store := st\<rparr>)"
  "metaOf (w\<lparr>store := (st)(IDB_SNAPSHOT_PREFIX @ k := None)\<rparr>) = metaOf (w\<lparr>store := st\<rparr>)"
  "metaOf (w\<lparr>store := store w\<rparr>) = metaOf w"
  by (simp_all add: metaOf_def)

lemma snapshotIndex_upd [simp]:
  "snapshotIndex (w\<lparr>store := (st)(IDB_SNAPSHOT_INDEX_KEY \<mapsto> IndexDoc idx)\<rparr>) = idx"
  by (simp add: snapshotIndex_def)

lemma snapshotIndex_meta [simp]:
  "snapshotIndex (w\<lparr>store := (st)(IDB_META_KEY \<mapsto> d)\<rparr>) = snapshotIndex (w\<lparr>store := st\<rparr>)"
  by (simp add: snapshotIndex_def)


lemma persistCfg_frame:
  "live (snd (persistCfg form w)) = live w \<and> trace (snd (persistCfg form w)) = trace w
   \<and> (\<forall>k. k \<noteq> IDB_SYNC_KEY \<longrightarrow> store (snd (persistCfg form w)) k = store w k)"
  by (auto simp: persistCfg_def setSyncConfig_def bind_def idbSet_def idbRequest_def ret_def Let_def
      split: list.splits bool.splits)

lemma persistCfg_pass:
  "take 1 (faults w) \<noteq> [True] \<Longrightarrow>
   fst (persistCfg form w) = Inr \<lparr> cfg_url = trim (cfg_url form), cfg_user = trim (cfg_user form),
            cfg_pass = cfg_pass form, cfg_auto = cfg_auto form \<rparr>"
  by (simp add: persistCfg_def setSyncConfig_def bind_def idbSet_def idbRequest_pass ret_def Let_def)


lemma saveState_live [simp]: "live (snd (saveState s options now rid w)) = live w"
  by (auto simp: saveState_def bind_def idbSet_def idbGet_def idbRequest_def tryIgnore_def getMeta_def
        setMeta_def ret_def Let_def split: list.splits bool.splits prod.splits sum.splits)

lemma bind_snd_saveState:
  "live (snd (bind (saveState s options now rid) (\<lambda>_. ret n) w)) = live w"
proof -
  have "live (snd (saveState s options now rid w)) = live w" by simp
  then show ?thesis
    by (cases "saveState s options now rid w") (auto simp: bind_def ret_def split: sum.splits)
qed

lemma bind_tryIgnore_live:
  "live (snd (bind (tryIgnore (saveState s options now rid)) (\<lambda>_. ret n) w)) = live w"
proof -
  have "live (snd (saveState s options now rid w)) = live w" by simp
  then show ?thesis
    by (cases "saveState s options now rid w")
       (auto simp: bind_def ret_def tryIgnore_def split: sum.splits)
qed

section \<open>JavaScript numbers\<close>

lemma roundHalfEven_of_int: "roundHalfEven (of_int k) = k"
  by (simp add: roundHalfEven_def)

lemma pow2_powi: "pow2 k = 2 powi k"
  by (simp add: pow2_def power_int_def inverse_eq_divide power_one_over)

lemma pow2_pos [simp]: "0 < pow2 k"
  by (simp add: pow2_powi)

lemma pow2_add: "pow2 (a + b) = pow2 a * pow2 b"
  by (simp add: pow2_powi power_int_add)

lemma pow2_mono: "a \<le> b \<Longrightarrow> pow2 a \<le> pow2 b"
  by (simp add: pow2_powi power_int_increasing)

lemma pow2_strict_mono: "a < b \<Longrightarrow> pow2 a < pow2 b"
  by (simp add: pow2_powi power_int_strict_increasing)

lemma pow2_nat: "0 \<le> k \<Longrightarrow> pow2 k = 2 ^ nat k"
  by (simp add: pow2_def)

lemma exponentOf_bounds:
  assumes "0 < x"
  shows "pow2 (exponentOf x) \<le> x \<and> x < pow2 (exponentOf x + 1)"
proof (cases "1 \<le> x")
  case True
  define n where "n = floor x"
  have n1: "1 \<le> n" using True by (simp add: n_def)
  have b: "2 ^ nat (bitlen n - 1) \<le> n" "n < 2 ^ nat (bitlen n)"
    using bitlen_bounds [of n] n1 by simp_all
  have bl: "1 \<le> bitlen n" using n1 bitlen_ge_iff_power [of 1 n] by simp
  have e: "exponentOf x = bitlen n - 1" using True by (simp add: exponentOf_def n_def)
  have lo: "pow2 (bitlen n - 1) \<le> x"
  proof -
    have "(of_int (2 ^ nat (bitlen n - 1)) :: rat) \<le> of_int n" using b(1) by (simp only: of_int_le_iff)
    also have "\<dots> \<le> x" by (simp add: n_def)
    finally show ?thesis using bl by (simp add: pow2_nat)
  qed
  have hi: "x < pow2 (bitlen n - 1 + 1)"
  proof -
    have "n + 1 \<le> 2 ^ nat (bitlen n)" using b(2) by simp
    then have "(of_int (n + 1) :: rat) \<le> of_int (2 ^ nat (bitlen n))" by (simp only: of_int_le_iff)
    moreover have "x < of_int (n + 1)" using floor_correct [of x] by (simp add: n_def)
    ultimately show ?thesis using bl by (simp add: pow2_nat)
  qed
  show ?thesis using lo hi by (simp add: e)
next
  case False
  define n where "n = floor (1 / x)"
  define k where "k = bitlen n - 1"
  have x1: "x < 1" using False by simp
  have inv1: "1 < 1 / x" using assms x1 by simp
  have n1: "1 \<le> n" using inv1 by (simp add: n_def le_floor_iff)
  have b: "2 ^ nat (bitlen n - 1) \<le> n" "n < 2 ^ nat (bitlen n)"
    using bitlen_bounds [of n] n1 by simp_all
  have bl: "1 \<le> bitlen n" using n1 bitlen_ge_iff_power [of 1 n] by simp
  have k0: "0 \<le> k" using bl by (simp add: k_def)
  have lo: "pow2 k \<le> 1 / x"
  proof -
    have "(of_int (2 ^ nat (bitlen n - 1)) :: rat) \<le> of_int n" using b(1) by (simp only: of_int_le_iff)
    also have "\<dots> \<le> 1 / x" by (simp add: n_def)
    finally show ?thesis using k0 by (simp add: pow2_nat k_def)
  qed
  have hi: "1 / x < pow2 (k + 1)"
  proof -
    have "n + 1 \<le> 2 ^ nat (bitlen n)" using b(2) by simp
    then have "(of_int (n + 1) :: rat) \<le> of_int (2 ^ nat (bitlen n))" by (simp only: of_int_le_iff)
    moreover have "1 / x < of_int (n + 1)" using floor_correct [of "1 / x"] by (simp add: n_def)
    ultimately show ?thesis using bl by (simp add: pow2_nat k_def)
  qed
  have i1: "pow2 (- k) = 1 / pow2 k" by (simp add: pow2_powi power_int_minus inverse_eq_divide)
  have i2: "pow2 (- k - 1) = 1 / pow2 (k + 1)"
    using power_int_minus [of "2::rat" "k + 1"] by (simp add: pow2_powi inverse_eq_divide)
  have xle: "x \<le> pow2 (- k)"
    using lo assms by (simp add: i1 field_simps)
  have xgt: "pow2 (- k - 1) < x"
    using hi assms by (simp add: i2 field_simps)
  have e: "exponentOf x = (if x * pow2 k = 1 then - k else - k - 1)"
    using False by (simp add: exponentOf_def n_def k_def Let_def)
  have pk: "pow2 k \<noteq> 0" by (simp add: pow2_powi)
  have eqv: "(x * pow2 k = 1) = (x = pow2 (- k))"
    using pk by (simp add: i1 nonzero_eq_divide_eq)
  show ?thesis
  proof (cases "x * pow2 k = 1")
    case True
    then have "x = pow2 (- k)" by (simp add: eqv)
    then show ?thesis using True e pow2_strict_mono [of "- k" "- k + 1"] by simp
  next
    case F: False
    then have "x \<noteq> pow2 (- k)" by (simp add: eqv)
    then have "x < pow2 (- k)" using xle by simp
    then show ?thesis using F e xgt by simp
  qed
qed

lemma exponentOf_unique:
  assumes "0 < x" and "pow2 e \<le> x" and "x < pow2 (e + 1)"
  shows "exponentOf x = e"
proof -
  note b = exponentOf_bounds [OF assms(1)]
  have "\<not> exponentOf x < e"
  proof
    assume "exponentOf x < e"
    then have "pow2 (exponentOf x + 1) \<le> pow2 e" by (intro pow2_mono) simp
    then show False using b assms(2) by simp
  qed
  moreover have "\<not> e < exponentOf x"
  proof
    assume "e < exponentOf x"
    then have "pow2 (e + 1) \<le> pow2 (exponentOf x)" by (intro pow2_mono) simp
    then show False using b assms(3) by simp
  qed
  ultimately show ?thesis by simp
qed

lemma roundHalfEven_ge:
  assumes "of_int a \<le> r"
  shows "a \<le> roundHalfEven r"
proof -
  have "a \<le> floor r" using assms by (simp add: le_floor_iff)
  then show ?thesis by (auto simp: roundHalfEven_def Let_def)
qed

lemma roundHalfEven_le:
  assumes "r \<le> of_int b"
  shows "roundHalfEven r \<le> b"
proof (cases "r = of_int b")
  case True
  then show ?thesis by (simp add: roundHalfEven_of_int)
next
  case False
  then have "r < of_int b" using assms by simp
  then have "floor r < b" by (simp add: floor_less_iff)
  moreover have "floor r \<le> b" using assms by (simp add: floor_le_iff) 
  ultimately show ?thesis by (auto simp: roundHalfEven_def Let_def)
qed

lemma roundDouble_exact:
  assumes y: "y = of_int k * pow2 (e - 52)" and k: "k \<noteq> 0"
    and e: "max (exponentOf \<bar>y\<bar>) (- 1022) = e"
    and o: "\<not> (1024 \<le> e \<or> (e = 1023 \<and> 2 ^ 53 \<le> \<bar>k\<bar>))"
  shows "roundDouble y = Finite y"
proof -
  have u: "pow2 (e - 52) \<noteq> 0" by (simp add: pow2_powi)
  have y0: "y \<noteq> 0" using y k u by simp
  have q: "y / pow2 (e - 52) = of_int k" using y u by simp
  show ?thesis
    unfolding roundDouble_def e Let_def q roundHalfEven_of_int
    using y0 o y by simp
qed

lemma pow2_52: "pow2 (e - 52) * 2 ^ 52 = pow2 e"
proof -
  have "pow2 ((e - 52) + 52) = pow2 (e - 52) * pow2 52" by (rule pow2_add)
  moreover have "(e - 52) + 52 = e" by simp
  moreover have "pow2 52 = 2 ^ 52" by (simp add: pow2_def)
  ultimately show ?thesis by simp
qed

lemma pow2_53: "pow2 (e - 52) * 2 ^ 53 = pow2 (e + 1)"
proof -
  have "pow2 ((e - 52) + 53) = pow2 (e - 52) * pow2 53" by (rule pow2_add)
  moreover have "(e - 52) + 53 = e + 1" by simp
  moreover have "pow2 53 = 2 ^ 53" by (simp add: pow2_def)
  ultimately show ?thesis by simp
qed

lemma pow2_Suc: "pow2 (e + 1) = 2 * pow2 e"
  using pow2_add [of e 1] by (simp add: pow2_def)

text \<open>What \<open>roundDouble\<close> returns is a double: rounding it again leaves it as it is.\<close>

lemma roundDouble_idem:
  assumes "roundDouble x = Finite y"
  shows "roundDouble y = Finite y"
proof (cases "x = 0")
  case True
  then show ?thesis using assms by (auto simp: roundDouble_def)
next
  case False
  define E where "E = exponentOf \<bar>x\<bar>"
  define e where "e = max E (- 1022)"
  define u where "u = pow2 (e - 52)"
  define m where "m = roundHalfEven (x / u)"
  have u0: "0 < u" by (simp add: u_def)
  have ax: "0 < \<bar>x\<bar>" using False by simp
  have res: "roundDouble x =
      (if 1024 \<le> e \<or> (e = 1023 \<and> 2 ^ 53 \<le> \<bar>m\<bar>) then (if 0 < x then PosInf else NegInf)
       else Finite (of_int m * u))"
    unfolding roundDouble_def Let_def E_def e_def u_def m_def by (simp only: False if_False)
  have o: "\<not> (1024 \<le> e \<or> (e = 1023 \<and> 2 ^ 53 \<le> \<bar>m\<bar>))"
    using assms res by (auto split: if_splits)
  have y: "y = of_int m * u" using assms res o by (auto split: if_splits)
  note b = exponentOf_bounds [OF ax, folded E_def]
  define L :: int where "L = (if - 1022 \<le> E then 2 ^ 52 else 0)"
  define U :: int where "U = (if - 1022 \<le> E then 2 ^ 53 else 2 ^ 52)"
  have lo: "of_int L \<le> \<bar>x\<bar> / u"
  proof (cases "- 1022 \<le> E")
    case True
    then have "e = E" by (simp add: e_def)
    then have "u * 2 ^ 52 \<le> \<bar>x\<bar>" using b pow2_52 [of E] by (simp add: u_def)
    then show ?thesis using True u0 by (simp add: L_def field_simps)
  next
    case False
    then show ?thesis using u0 by (simp add: L_def)
  qed
  have hi: "\<bar>x\<bar> / u \<le> of_int U"
  proof (cases "- 1022 \<le> E")
    case True
    then have "e = E" by (simp add: e_def)
    then have "\<bar>x\<bar> < u * 2 ^ 53" using b pow2_53 [of E] by (simp add: u_def)
    then show ?thesis using True u0 by (simp add: U_def field_simps)
  next
    case False
    then have e: "e = - 1022" by (simp add: e_def)
    have "E + 1 \<le> - 1022" using False by simp
    then have "pow2 (E + 1) \<le> pow2 (- 1022)" by (rule pow2_mono)
    then have "\<bar>x\<bar> < pow2 (- 1022)" using b by simp
    then have "\<bar>x\<bar> < u * 2 ^ 52" using pow2_52 [of "- 1022"] by (simp add: u_def e)
    then show ?thesis using False u0 by (simp add: U_def field_simps)
  qed
  have mb: "L \<le> \<bar>m\<bar> \<and> \<bar>m\<bar> \<le> U"
  proof (cases "0 < x")
    case True
    then have xa: "\<bar>x\<bar> = x" by simp
    have "L \<le> m" using roundHalfEven_ge [OF lo [unfolded xa]] by (simp add: m_def)
    moreover have "m \<le> U" using roundHalfEven_le [OF hi [unfolded xa]] by (simp add: m_def)
    moreover have "0 \<le> L" by (simp add: L_def)
    ultimately show ?thesis by simp
  next
    case F: False
    then have xa: "\<bar>x\<bar> = - x" using False by simp
    have l2: "of_int (- U) \<le> x / u" using hi [unfolded xa] by simp
    have h2: "x / u \<le> of_int (- L)" using lo [unfolded xa] by simp
    have "- U \<le> m" using roundHalfEven_ge [OF l2] by (simp add: m_def)
    moreover have "m \<le> - L" using roundHalfEven_le [OF h2] by (simp add: m_def)
    moreover have "0 \<le> L" by (simp add: L_def)
    ultimately show ?thesis by simp
  qed
  have ay: "\<bar>y\<bar> = of_int \<bar>m\<bar> * u" using u0 by (simp add: y abs_mult)
  show ?thesis
  proof (cases "m = 0")
    case True
    then show ?thesis by (simp add: y roundDouble_def)
  next
    case m0: False
    then have m1: "1 \<le> \<bar>m\<bar>" by simp
    have ypos: "0 < \<bar>y\<bar>" using m0 u0 by (simp add: y)
    have mU: "\<bar>m\<bar> \<le> 2 ^ 53" using mb by (cases "- 1022 \<le> E") (simp_all add: U_def)
    then have "\<bar>m\<bar> < 2 ^ 52 \<or> (2 ^ 52 \<le> \<bar>m\<bar> \<and> \<bar>m\<bar> < 2 ^ 53) \<or> \<bar>m\<bar> = 2 ^ 53" by linarith
    then consider (sub) "\<bar>m\<bar> < 2 ^ 52" | (norm) "2 ^ 52 \<le> \<bar>m\<bar>" "\<bar>m\<bar> < 2 ^ 53" | (top) "\<bar>m\<bar> = 2 ^ 53"
      by blast
    then show ?thesis
    proof cases
      case sub
      then have nE: "\<not> - 1022 \<le> E" using mb by (auto simp: L_def split: if_splits)
      then have e: "e = - 1022" by (simp add: e_def)
      have "(of_int \<bar>m\<bar> :: rat) < of_int (2 ^ 52)" using sub by (simp only: of_int_less_iff)
      then have "\<bar>y\<bar> < u * 2 ^ 52" using u0 by (simp add: ay mult.commute)
      then have lt: "\<bar>y\<bar> < pow2 (- 1022)" using pow2_52 [of "- 1022"] by (simp add: u_def e)
      have "exponentOf \<bar>y\<bar> < - 1022"
      proof (rule ccontr)
        assume "\<not> exponentOf \<bar>y\<bar> < - 1022"
        then have "pow2 (- 1022) \<le> pow2 (exponentOf \<bar>y\<bar>)" by (intro pow2_mono) simp
        then show False using exponentOf_bounds [OF ypos] lt by simp
      qed
      then have e2: "max (exponentOf \<bar>y\<bar>) (- 1022) = e" by (simp add: e)
      show ?thesis
        by (rule roundDouble_exact [where k = m and e = e, OF _ m0 e2 o]) (simp add: y u_def)
    next
      case norm
      have "(of_int (2 ^ 52) :: rat) \<le> of_int \<bar>m\<bar>" using norm(1) by (simp only: of_int_le_iff)
      then have "u * 2 ^ 52 \<le> \<bar>y\<bar>" using u0 by (simp add: ay mult.commute)
      then have l: "pow2 e \<le> \<bar>y\<bar>" using pow2_52 [of e] by (simp add: u_def)
      have "(of_int \<bar>m\<bar> :: rat) < of_int (2 ^ 53)" using norm(2) by (simp only: of_int_less_iff)
      then have "\<bar>y\<bar> < u * 2 ^ 53" using u0 by (simp add: ay mult.commute)
      then have h: "\<bar>y\<bar> < pow2 (e + 1)" using pow2_53 [of e] by (simp add: u_def)
      have "exponentOf \<bar>y\<bar> = e" by (rule exponentOf_unique [OF ypos l h])
      moreover have "- 1022 \<le> e" by (simp add: e_def)
      ultimately have e2: "max (exponentOf \<bar>y\<bar>) (- 1022) = e" by simp
      show ?thesis
        by (rule roundDouble_exact [where k = m and e = e, OF _ m0 e2 o]) (simp add: y u_def)
    next
      case top
      have a: "\<bar>y\<bar> = pow2 (e + 1)" using pow2_53 [of e] by (simp add: ay top u_def mult.commute)
      have "\<bar>y\<bar> < pow2 (e + 1 + 1)" using pow2_strict_mono [of "e + 1" "e + 1 + 1"] by (simp add: a)
      then have "exponentOf \<bar>y\<bar> = e + 1" using exponentOf_unique [OF ypos, of "e + 1"] a by simp
      moreover have "- 1022 \<le> e" by (simp add: e_def)
      ultimately have e2: "max (exponentOf \<bar>y\<bar>) (- 1022) = e + 1" by simp
      define k where "k = m div 2"
      have "m = 2 ^ 53 \<or> m = - (2 ^ 53)" using top by linarith
      then have mk: "m = 2 * k" "\<bar>k\<bar> = 2 ^ 52" by (auto simp: k_def)
      have k0: "k \<noteq> 0" using mk(2) by auto
      have o2: "\<not> (1024 \<le> e + 1 \<or> (e + 1 = 1023 \<and> 2 ^ 53 \<le> \<bar>k\<bar>))"
        using o top mk(2) by simp
      have "pow2 (e + 1 - 52) = 2 * u" using pow2_Suc [of "e - 52"] by (simp add: u_def)
      then have yk: "y = of_int k * pow2 (e + 1 - 52)" by (simp add: y mk(1))
      show ?thesis by (rule roundDouble_exact [OF yk k0 e2 o2])
    qed
  qed
qed

lemma dbl_idem: "dbl (dbl v) = dbl v"
proof (cases v)
  case (Finite x)
  show ?thesis
  proof (cases "roundDouble x")
    case (Finite y)
    then show ?thesis using roundDouble_idem [OF Finite] \<open>v = Finite x\<close> by (simp add: dbl_def)
  qed (simp_all add: dbl_def \<open>v = Finite x\<close>)
qed (simp_all add: dbl_def)

lemma roundHalfEven_error: "\<bar>of_int (roundHalfEven r) - r\<bar> \<le> 1 / 2"
proof -
  define d where "d = r - of_int (floor r)"
  have d: "0 \<le> d" "d < 1" using floor_correct [of r] by (simp_all add: d_def)
  have e1: "of_int (floor r) - r = - d" by (simp add: d_def)
  have e2: "of_int (floor r + 1) - r = 1 - d" by (simp add: d_def)
  have lo: "d \<le> 1 / 2 \<Longrightarrow> \<bar>of_int (floor r) - r\<bar> \<le> 1 / 2"
    unfolding e1 using d by linarith
  have hi: "1 / 2 \<le> d \<Longrightarrow> \<bar>of_int (floor r + 1) - r\<bar> \<le> 1 / 2"
    unfolding e2 using d by linarith
  consider "d < 1 / 2" | "1 / 2 < d" | "d = 1 / 2" by linarith
  then show ?thesis
  proof cases
    case 1
    then have "roundHalfEven r = floor r" by (simp add: roundHalfEven_def Let_def d_def)
    then show ?thesis using lo 1 by simp
  next
    case 2
    then have "roundHalfEven r = floor r + 1" by (simp add: roundHalfEven_def Let_def d_def)
    then show ?thesis using hi 2 by simp
  next
    case 3
    then have "roundHalfEven r = floor r \<or> roundHalfEven r = floor r + 1"
      by (simp add: roundHalfEven_def Let_def d_def)
    then show ?thesis using lo hi 3 by auto
  qed
qed

text \<open>
  A finite result of \<open>roundDouble\<close> is within half a unit in the last place of what
  was rounded.
\<close>

lemma roundDouble_error:
  assumes "roundDouble x = Finite y"
  shows "\<bar>y - x\<bar> \<le> pow2 (max (exponentOf \<bar>x\<bar>) (- 1022) - 53)"
proof (cases "x = 0")
  case True
  then show ?thesis using assms pow2_pos [of "max (exponentOf \<bar>x\<bar>) (- 1022) - 53"]
    by (auto simp: roundDouble_def simp del: pow2_pos intro: less_imp_le)
next
  case False
  define e where "e = max (exponentOf \<bar>x\<bar>) (- 1022)"
  define u where "u = pow2 (e - 52)"
  define m where "m = roundHalfEven (x / u)"
  have u0: "0 < u" by (simp add: u_def)
  have res: "roundDouble x =
      (if 1024 \<le> e \<or> (e = 1023 \<and> 2 ^ 53 \<le> \<bar>m\<bar>) then (if 0 < x then PosInf else NegInf)
       else Finite (of_int m * u))"
    unfolding roundDouble_def Let_def e_def u_def m_def by (simp only: False if_False)
  have y: "y = of_int m * u" using assms res by (auto split: if_splits)
  have "y - x = (of_int m - x / u) * u" using u0 by (simp add: y field_simps)
  then have "\<bar>y - x\<bar> = \<bar>of_int m - x / u\<bar> * u" using u0 by (simp add: abs_mult)
  also have "\<dots> \<le> (1 / 2) * u"
    using roundHalfEven_error [of "x / u"] u0 by (intro mult_right_mono) (simp_all add: m_def)
  also have "\<dots> = pow2 (e - 53)"
    using pow2_Suc [of "e - 53"] by (simp add: u_def)
  finally show ?thesis by (simp add: e_def)
qed

lemma exponentOf_of_int: "1 \<le> n \<Longrightarrow> exponentOf (of_int n) = bitlen n - 1"
  by (simp add: exponentOf_def)

lemma bitlen_range:
  assumes "1 \<le> n" "n < 2 ^ 53"
  shows "1 \<le> bitlen n \<and> bitlen n \<le> 53"
proof -
  have "bitlen n \<le> 53" using assms bitlen_le_iff_power [of n 53] by simp
  moreover have "1 \<le> bitlen n" using assms bitlen_ge_iff_power [of 1 n] by simp
  ultimately show ?thesis by simp
qed

lemma roundDouble_pos_int:
  assumes "1 \<le> n" "n < 2 ^ 53"
  shows "roundDouble (of_int n) = Finite (of_int n)" and "roundDouble (- of_int n) = Finite (- of_int n)"
proof -
  define k where "k = nat (53 - bitlen n)"
  have b: "1 \<le> bitlen n" "bitlen n \<le> 53" using bitlen_range [OF assms] by simp_all
  have e: "exponentOf \<bar>of_int n\<bar> = bitlen n - 1"
    using assms exponentOf_of_int [of n] by simp
  have p: "pow2 (bitlen n - 1 - 52) = 1 / 2 ^ k"
    using b by (cases "bitlen n = 53") (simp_all add: pow2_def k_def)
  have q: "(of_int n :: rat) / (1 / 2 ^ k) = of_int (n * 2 ^ k)" by simp
  have q': "- (of_int n :: rat) / (1 / 2 ^ k) = of_int (- n * 2 ^ k)" by simp
  have m: "max (bitlen n - 1) (- 1022) = bitlen n - 1" using b by simp
  have n0: "(of_int n :: rat) \<noteq> 0" using assms by simp
  show "roundDouble (of_int n) = Finite (of_int n)"
    using b n0 unfolding roundDouble_def e m Let_def p q roundHalfEven_of_int
    by simp
  have e': "exponentOf \<bar>- of_int n\<bar> = bitlen n - 1" using e by simp
  show "roundDouble (- of_int n) = Finite (- of_int n)"
    using b n0 unfolding roundDouble_def e' m Let_def p q' roundHalfEven_of_int
    by simp
qed

text \<open>
  An integer below \<open>2^53\<close> in size is a double: rounding leaves it as it is.
\<close>

lemma roundDouble_of_int:
  assumes "\<bar>n\<bar> < 2 ^ 53"
  shows "roundDouble (of_int n) = Finite (of_int n)"
proof -
  consider "n = 0" | "1 \<le> n" | "n \<le> - 1" by linarith
  then show ?thesis
  proof cases
    case 1 then show ?thesis by (simp add: roundDouble_def)
  next
    case 2 then show ?thesis using roundDouble_pos_int(1) [of n] assms by simp
  next
    case 3
    then have "1 \<le> - n" "- n < 2 ^ 53" using assms by simp_all
    from roundDouble_pos_int(2) [OF this] show ?thesis by simp
  qed
qed

lemma dbl_of_int: "\<bar>n\<bar> < 2 ^ 53 \<Longrightarrow> dbl (Finite (of_int n)) = Finite (of_int n)"
  by (simp add: dbl_def roundDouble_of_int)

section \<open>Timestamps and the confirmation rule of sync\<close>

text \<open>
  Claim C2. The comparison \<open>isoNewerThan\<close> of the sync client: an absent or empty
  timestamp is unparsable; when both arguments are unparsable, neither is newer than
  the other; a parsable timestamp is newer than an unparsable one, and not the other
  way round; two parsable timestamps compare by strict greater-than on their times.
  The engine's parser is any \<open>dp\<close> that rejects the empty string, as \<open>Date\<close> does.
\<close>

theorem isoNewerThan_cases:
  assumes "dp [] = None"
  shows "(\<not> truthy a \<longrightarrow> parseComparableIso dp a = None)
     \<and> (parseComparableIso dp a = None \<and> parseComparableIso dp b = None
          \<longrightarrow> \<not> isoNewerThan dp a b \<and> \<not> isoNewerThan dp b a)
     \<and> (parseComparableIso dp a \<noteq> None \<and> parseComparableIso dp b = None
          \<longrightarrow> isoNewerThan dp a b \<and> \<not> isoNewerThan dp b a)
     \<and> (\<forall>x y. parseComparableIso dp a = Some x \<and> parseComparableIso dp b = Some y
          \<longrightarrow> isoNewerThan dp a b = (x > y))"
  using assms
  by (auto simp: isoNewerThan_def parseComparableIso_def strOr_def truthy_def Let_def split: option.splits)

theorem isoNewerThan_cases_witness:
  "dateParseISO [] = None
   \<and> parseComparableIso dateParseISO None = None
   \<and> \<not> isoNewerThan dateParseISO None (Some ''not a date'')
   \<and> \<not> isoNewerThan dateParseISO (Some ''not a date'') None
   \<and> isoNewerThan dateParseISO (Some ''2024-01-01T00:00:00.000Z'') None
   \<and> \<not> isoNewerThan dateParseISO None (Some ''2024-01-01T00:00:00.000Z'')
   \<and> isoNewerThan dateParseISO (Some ''2024-01-02T00:00:00.000Z'') (Some ''2024-01-01T00:00:00.000Z'')
   \<and> \<not> isoNewerThan dateParseISO (Some ''2024-01-01T00:00:00.000Z'') (Some ''2024-01-01T00:00:00.000Z'')"
proof -
  have h: "dateParseISO [] = None" by code_simp
  have t: "\<not> truthy None" by code_simp
  have n: "parseComparableIso dateParseISO None = None"
    using isoNewerThan_cases [where dp = dateParseISO and a = None and b = None, OF h] t by simp
  have u: "parseComparableIso dateParseISO (Some ''not a date'') = None" by code_simp
  have p1: "parseComparableIso dateParseISO (Some ''2024-01-01T00:00:00.000Z'') = Some 1704067200000" by code_simp
  have p2: "parseComparableIso dateParseISO (Some ''2024-01-02T00:00:00.000Z'') = Some 1704153600000" by code_simp
  show ?thesis
    using h n u p1 p2
      isoNewerThan_cases [where dp = dateParseISO and a = None and b = "Some ''not a date''", OF h]
      isoNewerThan_cases [where dp = dateParseISO and a = "Some ''2024-01-01T00:00:00.000Z''" and b = None, OF h]
      isoNewerThan_cases [where dp = dateParseISO and a = "Some ''2024-01-02T00:00:00.000Z''" and b = "Some ''2024-01-01T00:00:00.000Z''", OF h]
      isoNewerThan_cases [where dp = dateParseISO and a = "Some ''2024-01-01T00:00:00.000Z''" and b = "Some ''2024-01-01T00:00:00.000Z''", OF h]
    by simp
qed



lemma metaOf_trace [simp]: "metaOf (w\<lparr>trace := t\<rparr>) = metaOf w"
  by (simp add: metaOf_def)

lemma metaOf_live [simp]: "metaOf (w\<lparr>live := s\<rparr>) = metaOf w"
  by (simp add: metaOf_def)











section \<open>Saving the state\<close>

text \<open>
  Claim C6. \<open>saveState\<close> writes the state document before anything else: when that
  first request fails, the save fails and the store is unchanged; when it does not
  fail, the save succeeds and the state document is in the store, whatever fault the
  reading or writing of the metadata record meets afterwards. When none of the three
  requests fails, the metadata record gets \<open>stateUpdatedAt\<close>, \<open>stateUpdatedBy\<close> and
  \<open>stateUpdatedSource\<close> from the options, and for an absent or empty option the
  current time, the device identifier (the stored one, or a fresh one) and \<open>local\<close>.
\<close>

theorem saveState_contract:
  "(take 1 (faults w) = [True] \<longrightarrow>
      fst (saveState s options now rid w) = Inl StorageError
      \<and> store (snd (saveState s options now rid w)) = store w)
   \<and> (take 1 (faults w) \<noteq> [True] \<longrightarrow>
      fst (saveState s options now rid w) = Inr ()
      \<and> store (snd (saveState s options now rid w)) IDB_STATE_KEY = Some (StateDoc s))
   \<and> (True \<notin> set (take 3 (faults w)) \<longrightarrow>
      store (snd (saveState s options now rid w)) IDB_META_KEY =
        Some (MetaDoc ((metaOf w)\<lparr>
          deviceId := orElse (deviceId (metaOf w)) (Some rid),
          stateUpdatedAt := orElse (opt_updatedAt options) (Some (nowISO now)),
          stateUpdatedBy := orElse (opt_updatedBy options) (orElse (deviceId (metaOf w)) (Some rid)),
          stateUpdatedSource := orElse (opt_source options) (Some ''local'') \<rparr>)))"
proof (intro conjI impI)
  assume "take 1 (faults w) = [True]"
  then obtain fs where "faults w = True # fs" by (cases "faults w") auto
  then show "fst (saveState s options now rid w) = Inl StorageError"
    and "store (snd (saveState s options now rid w)) = store w"
    by (simp_all add: saveState_def bind_def idbSet_def idbRequest_fail)
next
  assume a: "take 1 (faults w) \<noteq> [True]"
  show "fst (saveState s options now rid w) = Inr ()"
    using a by (simp add: saveState_def bind_def idbSet_def idbRequest_pass tryIgnore_def split: prod.splits sum.splits)
  show "store (snd (saveState s options now rid w)) IDB_STATE_KEY = Some (StateDoc s)"
    using a
    by (auto simp: saveState_def bind_def idbSet_def idbGet_def idbRequest_pass tryIgnore_def getMeta_def
          setMeta_def ret_def idbRequest_def Let_def IDB_STATE_KEY_def IDB_META_KEY_def
        split: prod.splits sum.splits list.splits bool.splits)
next
  assume a: "True \<notin> set (take 3 (faults w))"
  have t3: "take 3 xs = (case xs of [] \<Rightarrow> [] | a # ys \<Rightarrow> a # (case ys of [] \<Rightarrow> [] | b # zs \<Rightarrow> b # take 1 zs))" for xs :: "bool list"
    by (simp add: numeral_3_eq_3 split: list.splits)
  show "store (snd (saveState s options now rid w)) IDB_META_KEY =
        Some (MetaDoc ((metaOf w)\<lparr>
          deviceId := orElse (deviceId (metaOf w)) (Some rid),
          stateUpdatedAt := orElse (opt_updatedAt options) (Some (nowISO now)),
          stateUpdatedBy := orElse (opt_updatedBy options) (orElse (deviceId (metaOf w)) (Some rid)),
          stateUpdatedSource := orElse (opt_source options) (Some ''local'') \<rparr>))"
    using a unfolding t3
    by (auto simp: saveState_def bind_def idbSet_def idbGet_def tryIgnore_def getMeta_def metaOf_def
          setMeta_def ret_def idbRequest_def Let_def IDB_STATE_KEY_def IDB_META_KEY_def
        split: list.splits bool.splits)
qed

theorem saveState_contract_witness:
  "take 1 (faults (freshWorld\<lparr>faults := [True]\<rparr>)) = [True]
   \<and> fst (saveState exState noOptions 0 ''dev'' (freshWorld\<lparr>faults := [True]\<rparr>)) = Inl StorageError
   \<and> store (snd (saveState exState noOptions 0 ''dev'' (freshWorld\<lparr>faults := [True]\<rparr>))) IDB_STATE_KEY = None
   \<and> take 1 (faults (freshWorld\<lparr>faults := [False, True]\<rparr>)) \<noteq> [True]
   \<and> fst (saveState exState noOptions 0 ''dev'' (freshWorld\<lparr>faults := [False, True]\<rparr>)) = Inr ()
   \<and> store (snd (saveState exState noOptions 0 ''dev'' (freshWorld\<lparr>faults := [False, True]\<rparr>))) IDB_STATE_KEY
       = Some (StateDoc exState)
   \<and> True \<notin> set (take 3 (faults freshWorld))
   \<and> store (snd (saveState exState noOptions 0 ''dev'' freshWorld)) IDB_META_KEY
       = Some (MetaDoc (emptyMeta\<lparr> deviceId := Some ''dev'',
            stateUpdatedAt := Some ''1970-01-01T00:00:00.000Z'',
            stateUpdatedBy := Some ''dev'', stateUpdatedSource := Some ''local'' \<rparr>))"
proof -
  have h0: "take 1 (faults (freshWorld\<lparr>faults := [True]\<rparr>)) = [True]" by code_simp
  have e: "store (freshWorld\<lparr>faults := [True]\<rparr>) IDB_STATE_KEY = None" by code_simp
  have h1: "take 1 (faults (freshWorld\<lparr>faults := [False, True]\<rparr>)) \<noteq> [True]" by code_simp
  have h2: "True \<notin> set (take 3 (faults freshWorld))" by code_simp
  have m: "metaOf freshWorld = emptyMeta" by code_simp
  have d: "orElse (deviceId emptyMeta) (Some ''dev'') = Some ''dev''" by code_simp
  have o: "orElse (opt_updatedAt noOptions) (Some (nowISO 0)) = Some ''1970-01-01T00:00:00.000Z''"
    "orElse (opt_updatedBy noOptions) (Some ''dev'') = Some ''dev''"
    "orElse (opt_source noOptions) (Some ''local'') = Some ''local''" by code_simp+
  show ?thesis
    using saveState_contract [of "freshWorld\<lparr>faults := [True]\<rparr>" exState noOptions 0 "''dev''"]
      saveState_contract [of "freshWorld\<lparr>faults := [False, True]\<rparr>" exState noOptions 0 "''dev''"]
      saveState_contract [of freshWorld exState noOptions 0 "''dev''"] h0 h1 h2 e
    by (simp add: m d o)
qed

section \<open>Pull and the shape of the remote state\<close>

lemma pullBody_invalid:
  assumes "\<not> isValidStateShape (remote_state r)"
  shows "pullBody dp (Response status (Some r)) answer now1 now2 rid w =
     (if status = 404 then Inr NoRemoteData
      else if \<not> ok status then Inl (HttpStatus status)
      else if remote_state r = Absent then Inr NoRemoteData
      else Inl (Error ''El remoto no contiene la estructura esperada.''), w)"
  using assms by (simp add: pullBody_def fetchRemoteSnapshot_def ret_def throw_def bind_def)

text \<open>
  Claim C5. When the \<open>state\<close> of the remote document fails \<open>isValidStateShape\<close>
  (one of the four collections is missing or is not an array), the pull operation,
  once the endpoint has answered with success and the document has a state, ends with
  the error of the shape check and leaves the whole world as it was: it makes no
  request to the store. A click on the pull button, which saves the sync form under
  its own key before it pulls, then ends with that error; and under every storage
  fault and every answer of the endpoint it leaves the live state, the persisted
  state document and the metadata record (with its \<open>lastSyncPullAt\<close>) unchanged.
\<close>

theorem pull_rejects_invalid_shape:
  assumes "\<not> isValidStateShape (remote_state r)"
  shows "(ok status \<and> remote_state r \<noteq> Absent \<longrightarrow>
            pullBody dp (Response status (Some r)) answer now1 now2 rid w
              = (Inl (Error ''El remoto no contiene la estructura esperada.''), w))
     \<and> (take 1 (faults w) \<noteq> [True] \<and> trim (cfg_url form) \<noteq> [] \<and> ok status \<and> remote_state r \<noteq> Absent
          \<longrightarrow> fst (pullClick dp form (Response status (Some r)) answer now1 now2 rid w)
                = Failed (Error ''El remoto no contiene la estructura esperada.''))
     \<and> live (snd (pullClick dp form (Response status (Some r)) answer now1 now2 rid w)) = live w
     \<and> store (snd (pullClick dp form (Response status (Some r)) answer now1 now2 rid w)) IDB_STATE_KEY
          = store w IDB_STATE_KEY
     \<and> store (snd (pullClick dp form (Response status (Some r)) answer now1 now2 rid w)) IDB_META_KEY
          = store w IDB_META_KEY
     \<and> trace (snd (pullClick dp form (Response status (Some r)) answer now1 now2 rid w)) = trace w"
proof -
  have keys: "IDB_STATE_KEY \<noteq> IDB_SYNC_KEY" "IDB_META_KEY \<noteq> IDB_SYNC_KEY"
    by (simp_all add: IDB_STATE_KEY_def IDB_META_KEY_def IDB_SYNC_KEY_def)
  have nf: "ok status \<Longrightarrow> status \<noteq> 404" by (auto simp: ok_def)
  have body: "ok status \<and> remote_state r \<noteq> Absent \<longrightarrow>
      pullBody dp (Response status (Some r)) answer now1 now2 rid w
        = (Inl (Error ''El remoto no contiene la estructura esperada.''), w)"
    using nf by (simp add: pullBody_invalid [OF assms])
  have click: "(take 1 (faults w) \<noteq> [True] \<and> trim (cfg_url form) \<noteq> [] \<and> ok status \<and> remote_state r \<noteq> Absent
          \<longrightarrow> fst (pullClick dp form (Response status (Some r)) answer now1 now2 rid w)
                = Failed (Error ''El remoto no contiene la estructura esperada.''))
     \<and> live (snd (pullClick dp form (Response status (Some r)) answer now1 now2 rid w)) = live w
     \<and> store (snd (pullClick dp form (Response status (Some r)) answer now1 now2 rid w)) IDB_STATE_KEY
          = store w IDB_STATE_KEY
     \<and> store (snd (pullClick dp form (Response status (Some r)) answer now1 now2 rid w)) IDB_META_KEY
          = store w IDB_META_KEY
     \<and> trace (snd (pullClick dp form (Response status (Some r)) answer now1 now2 rid w)) = trace w"
    using persistCfg_frame [of form w] persistCfg_pass [of w form] keys nf
    by (cases "persistCfg form w")
       (auto simp: pullClick_def pullBody_invalid [OF assms] split: sum.splits)
  show ?thesis using body click by blast
qed

theorem pull_rejects_invalid_shape_witness:
  "\<not> isValidStateShape (remote_state exBadRemote)
   \<and> ok 200 \<and> remote_state exBadRemote \<noteq> Absent
   \<and> take 1 (faults (stampedWorld ''2024-01-01T00:00:00.000Z'')) \<noteq> [True]
   \<and> trim (cfg_url exForm) \<noteq> []
   \<and> pullBody dateParseISO (Response 200 (Some exBadRemote)) True 0 0 ''dev''
        (stampedWorld ''2024-01-01T00:00:00.000Z'')
       = (Inl (Error ''El remoto no contiene la estructura esperada.''),
          stampedWorld ''2024-01-01T00:00:00.000Z'')
   \<and> fst (pullClick dateParseISO exForm (Response 200 (Some exBadRemote)) True 0 0 ''dev''
        (stampedWorld ''2024-01-01T00:00:00.000Z''))
       = Failed (Error ''El remoto no contiene la estructura esperada.'')
   \<and> live (snd (pullClick dateParseISO exForm (Response 200 (Some exBadRemote)) True 0 0 ''dev''
        (stampedWorld ''2024-01-01T00:00:00.000Z'')))
       = live (stampedWorld ''2024-01-01T00:00:00.000Z'')
   \<and> store (snd (pullClick dateParseISO exForm (Response 200 (Some exBadRemote)) True 0 0 ''dev''
        (stampedWorld ''2024-01-01T00:00:00.000Z''))) IDB_STATE_KEY
       = store (stampedWorld ''2024-01-01T00:00:00.000Z'') IDB_STATE_KEY
   \<and> store (snd (pullClick dateParseISO exForm (Response 200 (Some exBadRemote)) True 0 0 ''dev''
        (stampedWorld ''2024-01-01T00:00:00.000Z''))) IDB_META_KEY
       = store (stampedWorld ''2024-01-01T00:00:00.000Z'') IDB_META_KEY"
proof -
  have h1: "\<not> isValidStateShape (remote_state exBadRemote)" by code_simp
  have h2: "take 1 (faults (stampedWorld ''2024-01-01T00:00:00.000Z'')) \<noteq> [True]" by code_simp
  have h3: "trim (cfg_url exForm) \<noteq> []" by code_simp
  have h4: "ok 200" by code_simp
  have h5: "remote_state exBadRemote \<noteq> Absent" by code_simp
  show ?thesis
    using pull_rejects_invalid_shape [OF h1, of 200 dateParseISO True 0 0 "''dev''"
        "stampedWorld ''2024-01-01T00:00:00.000Z''" exForm]
      h1 h2 h3 h4 h5
    by simp
qed

section \<open>Snapshot retention\<close>

lemma nowISO_nonempty [simp]: "nowISO t \<noteq> []"
  by (simp add: nowISO_def toISOString_def Let_def)

lemma entryOf_id [simp]: "entry_id (entryOf c) = idOf c"
  by (simp add: entryOf_def)

lemma idOf_nonempty [simp]: "idOf c \<noteq> []"
  by (simp add: idOf_def)

lemma listSnapshots_ok: "faults w = [] \<Longrightarrow> listSnapshots w = (Inr (snapshotIndex w), w)"
  by (simp add: listSnapshots_def snapshotIndex_def bind_def idbGet_ok ret_def)

lemma trimSnapshots_short: "length idx \<le> MAX_SNAPSHOTS \<Longrightarrow> trimSnapshots idx w = (Inr idx, w)"
  by (subst trimSnapshots.simps) simp

lemma trimSnapshots_one:
  assumes "faults w = []" "length idx = Suc MAX_SNAPSHOTS" "entry_id (last idx) \<noteq> []"
  shows "trimSnapshots idx w =
     (Inr (butlast idx), w\<lparr>store := (store w)(IDB_SNAPSHOT_PREFIX @ entry_id (last idx) := None)\<rparr>)"
  using assms
  by (subst trimSnapshots.simps) (simp add: idbDelete_ok trimSnapshots_short)

lemma createSnapshot_alt:
  "createSnapshot (fst c) (fst (snd c)) (snd (snd c)) =
     bind (idbSet (IDB_SNAPSHOT_PREFIX @ idOf c) (SnapshotDoc (snapshotOf c))) (\<lambda>_.
     bind listSnapshots (\<lambda>idx.
     bind (trimSnapshots (entryOf c # idx)) (\<lambda>idx'.
     bind (idbSet IDB_SNAPSHOT_INDEX_KEY (IndexDoc idx')) (\<lambda>_. ret (snapshotOf c)))))"
  by (simp add: createSnapshot_def Let_def deepClone_def snapshotOf_def entryOf_def idOf_def)

lemma createSnapshot_step:
  assumes "faults w = []" "length (snapshotIndex w) \<le> MAX_SNAPSHOTS"
    and "\<forall>e \<in> set (snapshotIndex w). entry_id e \<noteq> []"
  shows "createSnapshot (fst c) (fst (snd c)) (snd (snd c)) w =
     (Inr (snapshotOf c),
      w\<lparr>store :=
          (if length (snapshotIndex w) = MAX_SNAPSHOTS
           then ((store w)(IDB_SNAPSHOT_PREFIX @ idOf c \<mapsto> SnapshotDoc (snapshotOf c)))
                  (IDB_SNAPSHOT_PREFIX @ entry_id (last (snapshotIndex w)) := None)
           else (store w)(IDB_SNAPSHOT_PREFIX @ idOf c \<mapsto> SnapshotDoc (snapshotOf c)))
          (IDB_SNAPSHOT_INDEX_KEY \<mapsto> IndexDoc (take MAX_SNAPSHOTS (entryOf c # snapshotIndex w)))\<rparr>)"
proof -
  let ?w1 = "w\<lparr>store := (store w)(IDB_SNAPSHOT_PREFIX @ idOf c \<mapsto> SnapshotDoc (snapshotOf c))\<rparr>"
  have f1: "faults ?w1 = []" using assms(1) by simp
  have i1: "snapshotIndex ?w1 = snapshotIndex w" by (simp add: snapshotIndex_def)
  have s1: "idbSet (IDB_SNAPSHOT_PREFIX @ idOf c) (SnapshotDoc (snapshotOf c)) w = (Inr (), ?w1)"
    using assms(1) by (simp add: idbSet_ok)
  have l1: "listSnapshots ?w1 = (Inr (snapshotIndex w), ?w1)"
    using listSnapshots_ok [OF f1] i1 by simp
  have b1: "bind (idbSet (IDB_SNAPSHOT_PREFIX @ idOf c) (SnapshotDoc (snapshotOf c))) f w = f () ?w1" for f :: "unit \<Rightarrow> Snapshot io"
    by (simp add: bind_def s1)
  have b2: "bind listSnapshots f ?w1 = f (snapshotIndex w) ?w1" for f :: "SnapshotEntry list \<Rightarrow> Snapshot io"
    by (simp add: bind_def l1)
  show ?thesis
  proof (cases "length (snapshotIndex w) = MAX_SNAPSHOTS")
    case True
    then have ne: "snapshotIndex w \<noteq> []" by (auto simp: MAX_SNAPSHOTS_def)
    have last_id: "entry_id (last (snapshotIndex w)) \<noteq> []"
      using assms(3) ne by simp
    have t: "trimSnapshots (entryOf c # snapshotIndex w) ?w1 =
        (Inr (entryOf c # butlast (snapshotIndex w)),
         ?w1\<lparr>store := (store ?w1)(IDB_SNAPSHOT_PREFIX @ entry_id (last (snapshotIndex w)) := None)\<rparr>)"
      using trimSnapshots_one [OF f1, of "entryOf c # snapshotIndex w"] True ne last_id by simp
    have tk: "take MAX_SNAPSHOTS (entryOf c # snapshotIndex w) = entryOf c # butlast (snapshotIndex w)"
      using True ne by (simp add: MAX_SNAPSHOTS_def take_Cons' butlast_conv_take)
    show ?thesis
      using True assms(1)
      apply (simp only: createSnapshot_alt b1 b2)
      apply (simp only: bind_def t tk)
      apply (simp add: idbSet_ok ret_def)
      done
  next
    case False
    then have lt: "length (entryOf c # snapshotIndex w) \<le> MAX_SNAPSHOTS" using assms(2) by simp
    have tk: "take MAX_SNAPSHOTS (entryOf c # snapshotIndex w) = entryOf c # snapshotIndex w"
      using lt by simp
    show ?thesis
      using False assms(1)
      apply (simp only: createSnapshot_alt b1 b2)
      apply (simp only: bind_def trimSnapshots_short [OF lt] tk)
      apply (simp add: idbSet_ok ret_def)
      done
  qed
qed

lemma take_Cons_take: "take n (x # take n xs) = take n (x # xs)"
  by (cases n) simp_all

lemma snapshotsKept_step:
  assumes inv: "snapshotsKept xs w" and d: "distinct (map idOf (c # xs))"
  shows "\<exists>w'. createSnapshot (fst c) (fst (snd c)) (snd (snd c)) w = (Inr (snapshotOf c), w')
           \<and> snapshotsKept (c # xs) w'"
proof -
  have f: "faults w = []" and idx: "snapshotIndex w = take MAX_SNAPSHOTS (map entryOf xs)"
    and kept: "\<And>c'. c' \<in> set (take MAX_SNAPSHOTS xs) \<Longrightarrow>
        store w (IDB_SNAPSHOT_PREFIX @ idOf c') = Some (SnapshotDoc (snapshotOf c'))"
    and gone: "\<And>c'. c' \<in> set (drop MAX_SNAPSHOTS xs) \<Longrightarrow> store w (IDB_SNAPSHOT_PREFIX @ idOf c') = None"
    using inv by (auto simp: snapshotsKept_def)
  have len: "length (snapshotIndex w) \<le> MAX_SNAPSHOTS" by (simp add: idx)
  have ids: "\<forall>e \<in> set (snapshotIndex w). entry_id e \<noteq> []"
    by (auto simp: idx dest!: in_set_takeD)
  have cnew: "idOf c \<notin> idOf ` set xs" and dx: "distinct (map idOf xs)" using d by auto
  have other: "\<And>c'. c' \<in> set xs \<Longrightarrow> idOf c' \<noteq> idOf c"
    using cnew by (metis imageI)
  note step = createSnapshot_step [OF f len ids, of c]
  let ?body = "(store w)(IDB_SNAPSHOT_PREFIX @ idOf c \<mapsto> SnapshotDoc (snapshotOf c))"
  show ?thesis
  proof (cases "length xs < MAX_SNAPSHOTS")
    case True
    then have ne: "length (snapshotIndex w) \<noteq> MAX_SNAPSHOTS" by (simp add: idx)
    let ?w' = "w\<lparr>store := ?body(IDB_SNAPSHOT_INDEX_KEY \<mapsto> IndexDoc (take MAX_SNAPSHOTS (entryOf c # snapshotIndex w)))\<rparr>"
    have run: "createSnapshot (fst c) (fst (snd c)) (snd (snd c)) w = (Inr (snapshotOf c), ?w')"
      using step ne by simp
    have tk: "take MAX_SNAPSHOTS xs = xs" "drop MAX_SNAPSHOTS (c # xs) = []"
      using True by (simp_all add: MAX_SNAPSHOTS_def)
    have "snapshotsKept (c # xs) ?w'"
      unfolding snapshotsKept_def
    proof (intro conjI ballI)
      show "faults ?w' = []" using f by simp
      show "snapshotIndex ?w' = take MAX_SNAPSHOTS (map entryOf (c # xs))"
        by (simp add: idx take_Cons_take del: take_Suc_Cons)
    next
      fix c' assume "c' \<in> set (take MAX_SNAPSHOTS (c # xs))"
      then have "c' = c \<or> c' \<in> set xs" by (auto dest: in_set_takeD)
      then show "store ?w' (IDB_SNAPSHOT_PREFIX @ idOf c') = Some (SnapshotDoc (snapshotOf c'))"
        using kept [of c'] other [of c'] tk(1) by auto
    next
      fix c' assume "c' \<in> set (drop MAX_SNAPSHOTS (c # xs))"
      then show "store ?w' (IDB_SNAPSHOT_PREFIX @ idOf c') = None" using tk(2) by simp
    qed
    then show ?thesis using run by blast
  next
    case False
    then have ge: "MAX_SNAPSHOTS \<le> length xs" by simp
    then have full: "length (snapshotIndex w) = MAX_SNAPSHOTS" by (simp add: idx)
    obtain n where n: "MAX_SNAPSHOTS = Suc n" by (simp add: MAX_SNAPSHOTS_def)
    have nlt: "n < length xs" using ge n by simp
    have lastidx: "last (snapshotIndex w) = entryOf (xs ! n)"
      using nlt by (simp add: idx n take_Suc_conv_app_nth take_map [symmetric] del: take_map)
    let ?old = "xs ! n"
    let ?w' = "w\<lparr>store := (?body(IDB_SNAPSHOT_PREFIX @ idOf ?old := None))
                  (IDB_SNAPSHOT_INDEX_KEY \<mapsto> IndexDoc (take MAX_SNAPSHOTS (entryOf c # snapshotIndex w)))\<rparr>"
    have run: "createSnapshot (fst c) (fst (snd c)) (snd (snd c)) w = (Inr (snapshotOf c), ?w')"
      using step full lastidx by simp
    have split: "xs = take n xs @ ?old # drop (Suc n) xs"
      using nlt by (simp add: id_take_nth_drop [symmetric])
    have dsplit: "distinct (map idOf (take n xs @ ?old # drop (Suc n) xs))"
      using dx split by simp
    have old_ne_c: "idOf ?old \<noteq> idOf c" using other [of ?old] nlt by simp
    have old_notin: "idOf ?old \<notin> idOf ` set (take n xs)"
      using dsplit by simp
    have old_ne_take: "\<And>c'. c' \<in> set (take n xs) \<Longrightarrow> idOf c' \<noteq> idOf ?old"
      using old_notin by (metis imageI)
    have "snapshotsKept (c # xs) ?w'"
      unfolding snapshotsKept_def
    proof (intro conjI ballI)
      show "faults ?w' = []" using f by simp
      show "snapshotIndex ?w' = take MAX_SNAPSHOTS (map entryOf (c # xs))"
        by (simp add: idx take_Cons_take del: take_Suc_Cons)
    next
      fix c' assume "c' \<in> set (take MAX_SNAPSHOTS (c # xs))"
      then have cases: "c' = c \<or> c' \<in> set (take n xs)" by (simp add: n)
      show "store ?w' (IDB_SNAPSHOT_PREFIX @ idOf c') = Some (SnapshotDoc (snapshotOf c'))"
      proof (cases "c' = c")
        case True
        then show ?thesis using old_ne_c by simp
      next
        case False
        then have m: "c' \<in> set (take n xs)" using cases by simp
        then have "c' \<in> set (take MAX_SNAPSHOTS xs)" by (metis n set_take_subset_set_take subsetD le_SucI order_refl)
        moreover have "idOf c' \<noteq> idOf c" using other [of c'] m by (auto dest: in_set_takeD)
        ultimately show ?thesis using kept [of c'] old_ne_take [OF m] by simp
      qed
    next
      fix c' assume "c' \<in> set (drop MAX_SNAPSHOTS (c # xs))"
      then have "c' \<in> set (drop n xs)" by (simp add: n)
      then have cases: "c' = ?old \<or> c' \<in> set (drop MAX_SNAPSHOTS xs)"
        using nlt by (simp add: n Cons_nth_drop_Suc [symmetric])
      show "store ?w' (IDB_SNAPSHOT_PREFIX @ idOf c') = None"
      proof (cases "idOf c' = idOf ?old")
        case True
        then show ?thesis by simp
      next
        case False
        then have m: "c' \<in> set (drop MAX_SNAPSHOTS xs)" using cases by auto
        then have "idOf c' \<noteq> idOf c" using other [of c'] by (auto dest: in_set_dropD)
        then show ?thesis using gone [OF m] False by simp
      qed
    qed
    then show ?thesis using run by blast
  qed
qed

lemma createSnapshots_kept:
  "snapshotsKept xs w \<Longrightarrow> distinct (map idOf (rev cs @ xs)) \<Longrightarrow>
   fst (createSnapshots cs w) = Inr () \<and> snapshotsKept (rev cs @ xs) (snd (createSnapshots cs w))"
proof (induction cs arbitrary: xs w)
  case Nil
  then show ?case by simp
next
  case (Cons c cs)
  have d: "distinct (map idOf (c # xs))" using Cons.prems(2) by auto
  obtain w' where run: "createSnapshot (fst c) (fst (snd c)) (snd (snd c)) w = (Inr (snapshotOf c), w')"
    and inv': "snapshotsKept (c # xs) w'"
    using snapshotsKept_step [OF Cons.prems(1) d] by blast
  have d': "distinct (map idOf (rev cs @ c # xs))" using Cons.prems(2) by simp
  show ?case using Cons.IH [OF inv' d'] run by simp
qed

text \<open>
  Claim C3. Starting from a store without snapshots and without storage faults, any
  sequence \<open>cs\<close> of calls of \<open>createSnapshot\<close> whose timestamp identifiers are
  distinct succeeds, and afterwards: the index is the entries of the calls, newest
  first, cut to 20, so its length is \<open>min (length cs) 20\<close> and its head is the entry
  of the last call; the body of each of the 20 newest snapshots is read back with its
  state; the body of every older snapshot is not found. As \<open>cs\<close> is arbitrary, this
  holds after each call of a longer sequence.
\<close>

theorem snapshot_retention:
  assumes "faults w = []" and "snapshotIndex w = []" and "distinct (map idOf cs)"
  shows "fst (createSnapshots cs w) = Inr ()
     \<and> fst (listSnapshots (snd (createSnapshots cs w))) = Inr (take 20 (map entryOf (rev cs)))
     \<and> length (take 20 (map entryOf (rev cs))) = min (length cs) 20
     \<and> (cs \<noteq> [] \<longrightarrow> hd (take 20 (map entryOf (rev cs))) = entryOf (last cs))
     \<and> (\<forall>c \<in> set (take 20 (rev cs)).
           fst (getSnapshotState (idOf c) (snd (createSnapshots cs w))) = Inr (Some (fst c)))
     \<and> (\<forall>c \<in> set (drop 20 (rev cs)).
           fst (getSnapshotState (idOf c) (snd (createSnapshots cs w))) = Inr None)"
proof -
  have init: "snapshotsKept [] w"
    using assms(1,2) by (simp add: snapshotsKept_def)
  have d: "distinct (map idOf (rev cs @ []))"
    using assms(3) by (simp add: rev_map [symmetric])
  from createSnapshots_kept [OF init d]
  have ok: "fst (createSnapshots cs w) = Inr ()"
    and inv: "snapshotsKept (rev cs) (snd (createSnapshots cs w))" by simp_all
  let ?w = "snd (createSnapshots cs w)"
  have f: "faults ?w = []" using inv by (simp add: snapshotsKept_def)
  have get: "fst (getSnapshotState k ?w) =
      Inr (case store ?w (IDB_SNAPSHOT_PREFIX @ k) of
             Some (SnapshotDoc snap) \<Rightarrow> Some (snapshot_state snap) | _ \<Rightarrow> None)" for k
    by (simp add: getSnapshotState_def bind_def idbGet_ok [OF f] ret_def)
  have hdl: "cs \<noteq> [] \<Longrightarrow> hd (take 20 (map entryOf (rev cs))) = entryOf (last cs)"
    by (cases cs rule: rev_cases) simp_all
  show ?thesis
    using ok inv hdl
    by (auto simp: snapshotsKept_def listSnapshots_ok [OF f] get MAX_SNAPSHOTS_def snapshotOf_def)
qed

theorem snapshot_retention_witness:
  "faults freshWorld = [] \<and> snapshotIndex freshWorld = [] \<and> distinct (map idOf exCalls)
   \<and> length exCalls = 22
   \<and> fst (createSnapshots exCalls freshWorld) = Inr ()
   \<and> fst (listSnapshots (snd (createSnapshots exCalls freshWorld))) = Inr (take 20 (map entryOf (rev exCalls)))
   \<and> length (take 20 (map entryOf (rev exCalls))) = 20
   \<and> hd (take 20 (map entryOf (rev exCalls))) = entryOf (exState, ''manual'', 21)
   \<and> fst (getSnapshotState ''1970-01-01T00:00:00.021Z'' (snd (createSnapshots exCalls freshWorld)))
        = Inr (Some exState)
   \<and> fst (getSnapshotState ''1970-01-01T00:00:00.002Z'' (snd (createSnapshots exCalls freshWorld)))
        = Inr (Some exState)
   \<and> fst (getSnapshotState ''1970-01-01T00:00:00.001Z'' (snd (createSnapshots exCalls freshWorld)))
        = Inr None
   \<and> fst (getSnapshotState ''1970-01-01T00:00:00.000Z'' (snd (createSnapshots exCalls freshWorld)))
        = Inr None"
proof -
  have h1: "faults freshWorld = []" by code_simp
  have h2: "snapshotIndex freshWorld = []" by code_simp
  have h3: "distinct (map idOf exCalls)" by code_simp
  have n: "length exCalls = 22" by code_simp
  have ne: "exCalls \<noteq> []" by code_simp
  have l: "last exCalls = (exState, ''manual'', 21)" by code_simp
  have m1: "(exState, ''manual'', 21) \<in> set (take 20 (rev exCalls))" by code_simp
  have m2: "(exState, ''manual'', 2) \<in> set (take 20 (rev exCalls))" by code_simp
  have m3: "(exState, ''manual'', 1) \<in> set (drop 20 (rev exCalls))" by code_simp
  have m4: "(exState, ''manual'', 0) \<in> set (drop 20 (rev exCalls))" by code_simp
  have i1: "idOf (exState, ''manual'', 21) = ''1970-01-01T00:00:00.021Z''" by code_simp
  have i2: "idOf (exState, ''manual'', 2) = ''1970-01-01T00:00:00.002Z''" by code_simp
  have i3: "idOf (exState, ''manual'', 1) = ''1970-01-01T00:00:00.001Z''" by code_simp
  have i4: "idOf (exState, ''manual'', 0) = ''1970-01-01T00:00:00.000Z''" by code_simp
  note t = snapshot_retention [OF h1 h2 h3]
  have b1: "\<forall>c \<in> set (take 20 (rev exCalls)).
      fst (getSnapshotState (idOf c) (snd (createSnapshots exCalls freshWorld))) = Inr (Some (fst c))"
    using t by blast
  have b2: "\<forall>c \<in> set (drop 20 (rev exCalls)).
      fst (getSnapshotState (idOf c) (snd (createSnapshots exCalls freshWorld))) = Inr None"
    using t by blast
  show ?thesis
    using h1 h2 h3 n ne t bspec [OF b1 m1] bspec [OF b1 m2] bspec [OF b2 m3] bspec [OF b2 m4]
    by (simp add: l i1 i2 i3 i4)
qed

section \<open>The daily snapshot\<close>

lemma ensureDaily_run:
  assumes f: "faults w = []" and ne: "\<not> isStateEmpty s"
    and day: "lastSnapshotDay (metaOf w) \<noteq> Some (take 10 (toISOString t1))"
    and len: "length (snapshotIndex w) \<le> MAX_SNAPSHOTS"
    and ids: "\<forall>e \<in> set (snapshotIndex w). entry_id e \<noteq> []"
  shows "ensureDailySnapshot s t1 t2 w =
     (Inr (),
      w\<lparr>store :=
          (if length (snapshotIndex w) = MAX_SNAPSHOTS
           then ((store w)(IDB_SNAPSHOT_PREFIX @ nowISO t2 \<mapsto> SnapshotDoc (snapshotOf (s, ''auto-diario'', t2))))
                  (IDB_SNAPSHOT_PREFIX @ entry_id (last (snapshotIndex w)) := None)
           else (store w)(IDB_SNAPSHOT_PREFIX @ nowISO t2 \<mapsto> SnapshotDoc (snapshotOf (s, ''auto-diario'', t2))))
          (IDB_SNAPSHOT_INDEX_KEY \<mapsto>
             IndexDoc (take MAX_SNAPSHOTS (entryOf (s, ''auto-diario'', t2) # snapshotIndex w)),
           IDB_META_KEY \<mapsto> MetaDoc ((metaOf w)\<lparr>lastSnapshotDay := Some (take 10 (toISOString t1))\<rparr>))\<rparr>)"
proof -
  have g: "bind getMeta k w = k (metaOf w) w" for k :: "Meta \<Rightarrow> unit io"
    by (simp add: bind_def getMeta_ok [OF f])
  note step = createSnapshot_step [OF f len ids, of "(s, ''auto-diario'', t2)", simplified]
  show ?thesis
    using ne day f
    apply (simp add: ensureDailySnapshot_def g Let_def)
    apply (simp add: bind_def step setMeta_def idbSet_ok idOf_def)
    done
qed

text \<open>
  What \<open>ensureDailySnapshot\<close> does. On an empty state it returns with the world
  unchanged. On a state that is not empty, when the metadata record does not hold the
  day of the call, it creates one snapshot with reason \<open>auto-diario\<close> (one entry at the
  front of the index, its body stored) and records the day; a later call with the same
  day changes nothing. The day of a call is the first ten characters of
  \<open>toISOString\<close>: the date in UTC.
\<close>

lemma ensureDailySnapshot_by_utc_date:
  assumes "faults w = []"
    and "length (snapshotIndex w) \<le> 20" and "\<forall>e \<in> set (snapshotIndex w). entry_id e \<noteq> []"
    and "nowISO t2 \<notin> entry_id ` set (snapshotIndex w)"
  shows "(isStateEmpty s \<longrightarrow> ensureDailySnapshot s t1 t2 w = (Inr (), w))
     \<and> (\<not> isStateEmpty s
          \<and> lastSnapshotDay (metaOf w) \<noteq> Some (take 10 (toISOString t1))
          \<and> take 10 (toISOString t3) = take 10 (toISOString t1)
        \<longrightarrow> fst (ensureDailySnapshot s t1 t2 w) = Inr ()
          \<and> snapshotIndex (snd (ensureDailySnapshot s t1 t2 w))
               = take 20 (\<lparr> entry_id = nowISO t2, entry_at = nowISO t2, entry_reason = ''auto-diario'' \<rparr>
                           # snapshotIndex w)
          \<and> fst (getSnapshotState (nowISO t2) (snd (ensureDailySnapshot s t1 t2 w))) = Inr (Some s)
          \<and> lastSnapshotDay (metaOf (snd (ensureDailySnapshot s t1 t2 w))) = Some (take 10 (toISOString t1))
          \<and> ensureDailySnapshot s t3 t4 (snd (ensureDailySnapshot s t1 t2 w))
               = (Inr (), snd (ensureDailySnapshot s t1 t2 w)))"
proof (intro conjI impI)
  assume "isStateEmpty s"
  then show "ensureDailySnapshot s t1 t2 w = (Inr (), w)"
    by (simp add: ensureDailySnapshot_def ret_def)
next
  assume a: "\<not> isStateEmpty s
          \<and> lastSnapshotDay (metaOf w) \<noteq> Some (take 10 (toISOString t1))
          \<and> take 10 (toISOString t3) = take 10 (toISOString t1)"
  have len: "length (snapshotIndex w) \<le> MAX_SNAPSHOTS" using assms(2) by (simp add: MAX_SNAPSHOTS_def)
  note run = ensureDaily_run [OF assms(1) _ _ len assms(3), of s t1 t2]
  let ?w1 = "snd (ensureDailySnapshot s t1 t2 w)"
  have f1: "faults ?w1 = []" using a assms(1) by (simp add: run)
  have lastne: "snapshotIndex w \<noteq> [] \<Longrightarrow> entry_id (last (snapshotIndex w)) \<noteq> nowISO t2"
    using assms(4) by (metis imageI last_in_set)
  show "fst (ensureDailySnapshot s t1 t2 w) = Inr ()" using a by (simp add: run)
  show "snapshotIndex ?w1 = take 20 (\<lparr> entry_id = nowISO t2, entry_at = nowISO t2,
            entry_reason = ''auto-diario'' \<rparr> # snapshotIndex w)"
    using a by (simp add: run entryOf_def idOf_def MAX_SNAPSHOTS_def)
  show "fst (getSnapshotState (nowISO t2) ?w1) = Inr (Some s)"
    using a lastne assms(1)
    by (cases "snapshotIndex w = []")
       (auto simp: getSnapshotState_def bind_def idbGet_ok ret_def run snapshotOf_def MAX_SNAPSHOTS_def)
  show m1: "lastSnapshotDay (metaOf ?w1) = Some (take 10 (toISOString t1))"
    using a by (simp add: run)
  show "ensureDailySnapshot s t3 t4 ?w1 = (Inr (), ?w1)"
    using a m1 getMeta_ok [OF f1] by (simp add: ensureDailySnapshot_def bind_def ret_def Let_def)
qed

text \<open>
  Claim C4 at its failing input. The claim counts calendar days in local time, as
  \<open>startOfDay\<close> and the date in the header of the page do; \<open>ensureDailySnapshot\<close>
  takes the day from \<open>toISOString\<close>, which prints the date in UTC. In a zone six hours
  west of UTC, two calls at 17:00 and at 19:00 of the same local day, 2024-01-01, fall
  on two UTC dates: the second call is not a no-op, and the day has two snapshots with
  reason \<open>auto-diario\<close>.
\<close>

theorem ensureDaily_same_local_day_twice:
  "specLocalDay (- 360) 1704150000000 = ''2024-01-01''
   \<and> specLocalDay (- 360) 1704157200000 = ''2024-01-01''
   \<and> \<not> isStateEmpty exState
   \<and> map (\<lambda>e. (entry_id e, entry_reason e))
        (snapshotIndex (snd (ensureDailySnapshot exState 1704150000000 1704150000001 freshWorld)))
      = [(''2024-01-01T23:00:00.001Z'', ''auto-diario'')]
   \<and> map (\<lambda>e. (entry_id e, entry_reason e))
        (snapshotIndex (snd (ensureDailySnapshot exState 1704157200000 1704157200001
          (snd (ensureDailySnapshot exState 1704150000000 1704150000001 freshWorld)))))
      = [(''2024-01-02T01:00:00.001Z'', ''auto-diario''), (''2024-01-01T23:00:00.001Z'', ''auto-diario'')]"
  by code_simp

section \<open>Recording and deleting sales\<close>

lemma clampInt_bounds: "lo \<le> hi \<Longrightarrow> lo \<le> clampInt n lo hi \<and> clampInt n lo hi \<le> hi"
  by (auto simp: clampInt_def split: jsnum.splits)

lemma find_updateFirst:
  "find P xs = Some p \<Longrightarrow> P (f p) \<Longrightarrow> find P (updateFirst P f xs) = Some (f p)"
  by (induction xs) (auto split: if_splits)

lemma saleFormSubmit_effect:
  assumes "find (\<lambda>x. product_id x = pid) (products (live w)) = Some p"
  shows "(clampInt qty0 1 1000000 \<le> stock p \<longrightarrow>
            live (snd (saleFormSubmit pid qty0 notes0 newId now now2 rid w)) =
              (live w)\<lparr> sales := sales (live w) @
                   [\<lparr> sale_id = newId, sale_at = nowISO now, productId = product_id p,
                      qty = clampInt qty0 1 1000000, unitPrice = price p, unitCost = cost p,
                      sale_total = jsMul (Finite (of_int (clampInt qty0 1 1000000))) (price p),
                      profit = jsMul (Finite (of_int (clampInt qty0 1 1000000)))
                                 (jsSub (price p) (cost p)),
                      sale_notes = (if trim notes0 = [] then None else Some (trim notes0)) \<rparr>],
                 products := updateFirst (\<lambda>x. product_id x = pid)
                   (\<lambda>x. x\<lparr>stock := stock x - clampInt qty0 1 1000000\<rparr>) (products (live w)) \<rparr>
          \<and> find (\<lambda>x. product_id x = pid)
                (products (live (snd (saleFormSubmit pid qty0 notes0 newId now now2 rid w))))
              = Some (p\<lparr>stock := stock p - clampInt qty0 1 1000000\<rparr>))
     \<and> (stock p < clampInt qty0 1 1000000 \<longrightarrow>
            saleFormSubmit pid qty0 notes0 newId now now2 rid w = (Inr StockInsuficiente, w))"
proof (intro conjI impI)
  assume a: "clampInt qty0 1 1000000 \<le> stock p"
  let ?q = "clampInt qty0 1 1000000"
  let ?s' = "(live w)\<lparr> sales := sales (live w) @
                   [\<lparr> sale_id = newId, sale_at = nowISO now, productId = product_id p,
                      qty = ?q, unitPrice = price p, unitCost = cost p,
                      sale_total = jsMul (Finite (of_int ?q)) (price p),
                      profit = jsMul (Finite (of_int ?q)) (jsSub (price p) (cost p)),
                      sale_notes = (if trim notes0 = [] then None else Some (trim notes0)) \<rparr>],
                 products := updateFirst (\<lambda>x. product_id x = pid)
                   (\<lambda>x. x\<lparr>stock := stock x - ?q\<rparr>) (products (live w)) \<rparr>"
  have run: "saleFormSubmit pid qty0 notes0 newId now now2 rid w =
      bind (saveState ?s' noOptions now2 rid) (\<lambda>_. ret VentaRegistrada) (w\<lparr>live := ?s'\<rparr>)"
    using assms a
    by (simp add: saleFormSubmit_def Let_def bind_def getLive_def setLive_def)
  show l: "live (snd (saleFormSubmit pid qty0 notes0 newId now now2 rid w)) = ?s'"
    unfolding run by (simp add: bind_snd_saveState)
  have "product_id p = pid" using assms by (auto dest: find_Some_iff [THEN iffD1])
  then show "find (\<lambda>x. product_id x = pid)
        (products (live (snd (saleFormSubmit pid qty0 notes0 newId now now2 rid w))))
      = Some (p\<lparr>stock := stock p - ?q\<rparr>)"
    unfolding l using find_updateFirst [OF assms, of "\<lambda>x. x\<lparr>stock := stock x - ?q\<rparr>"] by simp
next
  assume "stock p < clampInt qty0 1 1000000"
  then show "saleFormSubmit pid qty0 notes0 newId now now2 rid w = (Inr StockInsuficiente, w)"
    using assms by (simp add: saleFormSubmit_def Let_def bind_def getLive_def ret_def)
qed

text \<open>
  On integers the total and the profit of a sale are exact, as long as the total stays
  below \<open>2^53\<close>.
\<close>

lemma integer_sale_exact:
  assumes "1 \<le> q" and "q \<le> 1000000" and "0 \<le> b" and "b \<le> a" and "q * a < 2 ^ 53"
  shows "jsMul (Finite (of_int q)) (Finite (of_int a)) = Finite (of_int (q * a))"
    and "jsMul (Finite (of_int q)) (jsSub (Finite (of_int a)) (Finite (of_int b)))
           = Finite (of_int (q * (a - b)))"
proof -
  have a0: "0 \<le> a" using assms by simp
  have aq: "a \<le> q * a" using assms(1) a0 by (simp add: mult_le_cancel_right1)
  have d0: "q * (a - b) \<le> q * a" using assms(1,3) by (simp only: mult_le_cancel_left) simp
  have d1: "0 \<le> q * (a - b)" using assms(1,4) by (intro mult_nonneg_nonneg) simp_all
  have d2: "0 \<le> q * a" using assms(1) a0 by (intro mult_nonneg_nonneg) simp_all
  have bq: "\<bar>q * a\<bar> < 2 ^ 53" "\<bar>a\<bar> < 2 ^ 53" "\<bar>b\<bar> < 2 ^ 53" "\<bar>a - b\<bar> < 2 ^ 53"
    "\<bar>q * (a - b)\<bar> < 2 ^ 53"
    using assms(3,4,5) a0 aq d0 d1 d2 by linarith+
  have q53: "\<bar>q\<bar> < 2 ^ 53" using assms(1,2) by simp
  note dq = dbl_of_int [OF q53] and da = dbl_of_int [OF bq(2)] and db = dbl_of_int [OF bq(3)]
  have dd: "dbl (Finite (of_int a - of_int b)) = Finite (of_int a - of_int b)"
    using dbl_of_int [OF bq(4)] by simp
  show "jsMul (Finite (of_int q)) (Finite (of_int a)) = Finite (of_int (q * a))"
    using roundDouble_of_int [OF bq(1)] by (simp add: jsMul_def dq da)
  have s: "jsSub (Finite (of_int a)) (Finite (of_int b)) = Finite (of_int (a - b))"
    using roundDouble_of_int [OF bq(4)] by (simp add: jsSub_def da db)
  show "jsMul (Finite (of_int q)) (jsSub (Finite (of_int a)) (Finite (of_int b)))
           = Finite (of_int (q * (a - b)))"
    unfolding s using roundDouble_of_int [OF bq(5)] by (simp add: jsMul_def dq dd)
qed

text \<open>
  Claim C8. For the product \<open>p\<close> that the sale form finds and the quantity
  \<open>clampInt qty0 1 1000000\<close>: when the stock covers the quantity, the handler appends
  the sale with \<open>total = qty * price p\<close> and \<open>profit = qty * (price p - cost p)\<close>,
  unit price and unit cost being those of \<open>p\<close>, and takes the quantity off the stock
  of \<open>p\<close>; when the stock is less than the quantity, the sale is rejected and nothing
  changes. The operators are those of JavaScript numbers, \<open>jsMul\<close> and \<open>jsSub\<close>:
  each result is the double nearest to the exact one, and nothing rounds it to cents.
  On a price and a cost that are integers, with \<open>0 \<le> cost \<le> price\<close> and a total
  below \<open>2^53\<close>, the total and the profit are the exact integers.
\<close>

theorem saleFormSubmit_records_sale:
  assumes "find (\<lambda>x. product_id x = pid) (products (live w)) = Some p"
  shows "(clampInt qty0 1 1000000 \<le> stock p \<longrightarrow>
            live (snd (saleFormSubmit pid qty0 notes0 newId now now2 rid w)) =
              (live w)\<lparr> sales := sales (live w) @
                   [\<lparr> sale_id = newId, sale_at = nowISO now, productId = product_id p,
                      qty = clampInt qty0 1 1000000, unitPrice = price p, unitCost = cost p,
                      sale_total = jsMul (Finite (of_int (clampInt qty0 1 1000000))) (price p),
                      profit = jsMul (Finite (of_int (clampInt qty0 1 1000000)))
                                 (jsSub (price p) (cost p)),
                      sale_notes = (if trim notes0 = [] then None else Some (trim notes0)) \<rparr>],
                 products := updateFirst (\<lambda>x. product_id x = pid)
                   (\<lambda>x. x\<lparr>stock := stock x - clampInt qty0 1 1000000\<rparr>) (products (live w)) \<rparr>
          \<and> find (\<lambda>x. product_id x = pid)
                (products (live (snd (saleFormSubmit pid qty0 notes0 newId now now2 rid w))))
              = Some (p\<lparr>stock := stock p - clampInt qty0 1 1000000\<rparr>))
     \<and> (stock p < clampInt qty0 1 1000000 \<longrightarrow>
            saleFormSubmit pid qty0 notes0 newId now now2 rid w = (Inr StockInsuficiente, w))
     \<and> (\<forall>a b. price p = Finite (of_int a) \<and> cost p = Finite (of_int b) \<and> 0 \<le> b \<and> b \<le> a
            \<and> clampInt qty0 1 1000000 * a < 2 ^ 53
          \<longrightarrow> jsMul (Finite (of_int (clampInt qty0 1 1000000))) (price p)
                = Finite (of_int (clampInt qty0 1 1000000 * a))
            \<and> jsMul (Finite (of_int (clampInt qty0 1 1000000))) (jsSub (price p) (cost p))
                = Finite (of_int (clampInt qty0 1 1000000 * (a - b))))"
proof -
  note e = saleFormSubmit_effect [OF assms, of qty0 notes0 newId now now2 rid]
  have q: "1 \<le> clampInt qty0 1 1000000" "clampInt qty0 1 1000000 \<le> 1000000"
    using clampInt_bounds [of 1 1000000 qty0] by simp_all
  have x: "\<forall>a b. price p = Finite (of_int a) \<and> cost p = Finite (of_int b) \<and> 0 \<le> b \<and> b \<le> a
            \<and> clampInt qty0 1 1000000 * a < 2 ^ 53
          \<longrightarrow> jsMul (Finite (of_int (clampInt qty0 1 1000000))) (price p)
                = Finite (of_int (clampInt qty0 1 1000000 * a))
            \<and> jsMul (Finite (of_int (clampInt qty0 1 1000000))) (jsSub (price p) (cost p))
                = Finite (of_int (clampInt qty0 1 1000000 * (a - b)))"
    using integer_sale_exact [OF q] by (metis (no_types))
  show ?thesis using e x by blast
qed

theorem saleFormSubmit_records_sale_witness:
  "find (\<lambda>x. product_id x = 1) (products (live (freshWorld\<lparr>live := exState\<rparr>)))
     = Some \<lparr> product_id = 1, product_name = ''Soda'', category = ''bebida'',
              cost = Finite 5, price = Finite 8, stock = 10, stockMin = 2 \<rparr>
   \<and> clampInt (Finite 3) 1 1000000 = 3
   \<and> sales (live (snd (saleFormSubmit 1 (Finite 3) [] 77 0 0 ''dev'' (freshWorld\<lparr>live := exState\<rparr>))))
       = [\<lparr> sale_id = 77, sale_at = ''1970-01-01T00:00:00.000Z'', productId = 1, qty = 3,
             unitPrice = Finite 8, unitCost = Finite 5, sale_total = Finite 24,
             profit = Finite 9, sale_notes = None \<rparr>]
   \<and> find (\<lambda>x. product_id x = 1)
        (products (live (snd (saleFormSubmit 1 (Finite 3) [] 77 0 0 ''dev'' (freshWorld\<lparr>live := exState\<rparr>)))))
       = Some \<lparr> product_id = 1, product_name = ''Soda'', category = ''bebida'',
                cost = Finite 5, price = Finite 8, stock = 7, stockMin = 2 \<rparr>
   \<and> clampInt (Finite 11) 1 1000000 = 11
   \<and> saleFormSubmit 1 (Finite 11) [] 77 0 0 ''dev'' (freshWorld\<lparr>live := exState\<rparr>)
       = (Inr StockInsuficiente, freshWorld\<lparr>live := exState\<rparr>)
   \<and> find (\<lambda>x. product_id x = 2) (products (live (freshWorld\<lparr>live := exCents\<rparr>)))
     = Some \<lparr> product_id = 2, product_name = ''Chicle'', category = ''otro'',
              cost = Finite (1 / 10), price = Finite (3 / 10), stock = 10, stockMin = 0 \<rparr>
   \<and> map (\<lambda>s. (qty s, unitPrice s, sale_total s, profit s))
        (sales (live (snd (saleFormSubmit 2 (Finite 3) [] 78 0 0 ''dev'' (freshWorld\<lparr>live := exCents\<rparr>)))))
       = [(3, Finite (3 / 10),
              Finite (2026619832316723 / 2251799813685248),
              Finite (5404319552844595 / 9007199254740992))]"
proof -
  let ?p = "\<lparr> product_id = 1, product_name = ''Soda'', category = ''bebida'',
              cost = Finite 5, price = Finite 8, stock = 10, stockMin = 2 \<rparr>"
  let ?c = "\<lparr> product_id = 2, product_name = ''Chicle'', category = ''otro'',
              cost = Finite (1 / 10), price = Finite (3 / 10), stock = 10, stockMin = 0 \<rparr>"
  have h: "find (\<lambda>x. product_id x = 1) (products (live (freshWorld\<lparr>live := exState\<rparr>))) = Some ?p"
    by (simp add: freshWorld_def exState_def)
  have hc: "find (\<lambda>x. product_id x = 2) (products (live (freshWorld\<lparr>live := exCents\<rparr>))) = Some ?c"
    by (simp add: freshWorld_def exCents_def)
  have q: "clampInt (Finite 3) 1 1000000 = 3" "clampInt (Finite 11) 1 1000000 = 11"
    by code_simp+
  have s: "sales exState = []" "products exState = [?p]" "sales exCents = []" "products exCents = [?c]"
    by (simp_all add: exState_def exCents_def emptyState_def)
  have t: "nowISO 0 = ''1970-01-01T00:00:00.000Z''" by code_simp
  have tr: "trim [] = []" by (simp add: trim_def)
  have pc: "price ?p = Finite (of_int 8) \<and> cost ?p = Finite (of_int 5)
      \<and> (0 :: int) \<le> 5 \<and> (5 :: int) \<le> 8 \<and> (3 * 8 :: int) < 2 ^ 53" by simp
  note t1 = saleFormSubmit_records_sale [OF h, of "Finite 3" "[]" 77 0 0 "''dev''"]
  have ex: "jsMul (Finite (of_int 3)) (price ?p) = Finite (of_int (3 * 8))
      \<and> jsMul (Finite (of_int 3)) (jsSub (price ?p) (cost ?p)) = Finite (of_int (3 * (8 - 5)))"
    using t1 pc unfolding q by blast
  have ar: "jsMul (Finite 3) (Finite 8) = Finite 24" "jsMul (Finite 3) (jsSub (Finite 8) (Finite 5)) = Finite 9"
    using ex by simp_all
  have d: "jsMul (Finite 3) (Finite (3 / 10)) = Finite (2026619832316723 / 2251799813685248)"
    "jsMul (Finite 3) (jsSub (Finite (3 / 10)) (Finite (1 / 10)))
       = Finite (5404319552844595 / 9007199254740992)" by code_simp+
  have l1: "sales (live (snd (saleFormSubmit 1 (Finite 3) [] 77 0 0 ''dev'' (freshWorld\<lparr>live := exState\<rparr>))))
       = [\<lparr> sale_id = 77, sale_at = ''1970-01-01T00:00:00.000Z'', productId = 1, qty = 3,
             unitPrice = Finite 8, unitCost = Finite 5, sale_total = Finite 24,
             profit = Finite 9, sale_notes = None \<rparr>]"
    and l2: "find (\<lambda>x. product_id x = 1)
        (products (live (snd (saleFormSubmit 1 (Finite 3) [] 77 0 0 ''dev'' (freshWorld\<lparr>live := exState\<rparr>)))))
       = Some \<lparr> product_id = 1, product_name = ''Soda'', category = ''bebida'',
                cost = Finite 5, price = Finite 8, stock = 7, stockMin = 2 \<rparr>"
    using t1 unfolding q by (simp_all add: s t tr ar)
  have l3: "saleFormSubmit 1 (Finite 11) [] 77 0 0 ''dev'' (freshWorld\<lparr>live := exState\<rparr>)
       = (Inr StockInsuficiente, freshWorld\<lparr>live := exState\<rparr>)"
    using saleFormSubmit_records_sale [OF h, of "Finite 11" "[]" 77 0 0 "''dev''"] unfolding q by simp
  have l4: "map (\<lambda>s. (qty s, unitPrice s, sale_total s, profit s))
        (sales (live (snd (saleFormSubmit 2 (Finite 3) [] 78 0 0 ''dev'' (freshWorld\<lparr>live := exCents\<rparr>)))))
       = [(3, Finite (3 / 10),
              Finite (2026619832316723 / 2251799813685248),
              Finite (5404319552844595 / 9007199254740992))]"
    using conjunct1 [OF saleFormSubmit_records_sale [OF hc, of "Finite 3" "[]" 78 0 0 "''dev''"]]
    unfolding q by (simp add: s d)
  show ?thesis using h hc q l1 l2 l3 l4 by simp
qed

lemma filter_one_out:
  "distinct (map f xs) \<Longrightarrow> \<exists>x \<in> set xs. f x = k \<Longrightarrow>
   Suc (length (filter (\<lambda>x. f x \<noteq> k) xs)) = length xs"
proof (induction xs)
  case Nil
  then show ?case by simp
next
  case (Cons a xs)
  show ?case
  proof (cases "f a = k")
    case True
    then have "\<forall>x \<in> set xs. f x \<noteq> k" using Cons.prems(1) by (metis distinct.simps(2) imageI list.simps(9) set_map)
    then have "filter (\<lambda>x. f x \<noteq> k) xs = xs" by (simp add: filter_id_conv)
    then show ?thesis using True by simp
  next
    case False
    then show ?thesis using Cons by auto
  qed
qed

text \<open>
  Claim C10. Deleting a sale: when no sale has the identifier, nothing changes; when
  one has it and the user declines, the live state is unchanged; when the user
  confirms, the sales become those with another identifier, one fewer when the
  identifiers are distinct, and the products (hence every stock), the expenses and
  the table sessions are the same as before.
\<close>

theorem saleDelete_frame:
  "(find (\<lambda>x. sale_id x = sid) (sales (live w)) = None \<longrightarrow>
      saleDelete sid answer now rid w = (Inr NoNotice, w))
   \<and> (find (\<lambda>x. sale_id x = sid) (sales (live w)) \<noteq> None \<longrightarrow>
      live (snd (saleDelete sid False now rid w)) = live w
      \<and> live (snd (saleDelete sid True now rid w))
           = (live w)\<lparr>sales := filter (\<lambda>x. sale_id x \<noteq> sid) (sales (live w))\<rparr>
      \<and> products (live (snd (saleDelete sid True now rid w))) = products (live w)
      \<and> expenses (live (snd (saleDelete sid True now rid w))) = expenses (live w)
      \<and> tables (live (snd (saleDelete sid True now rid w))) = tables (live w)
      \<and> (distinct (map sale_id (sales (live w))) \<longrightarrow>
            Suc (length (sales (live (snd (saleDelete sid True now rid w))))) = length (sales (live w))))"
proof (intro conjI impI)
  assume "find (\<lambda>x. sale_id x = sid) (sales (live w)) = None"
  then show "saleDelete sid answer now rid w = (Inr NoNotice, w)"
    by (simp add: saleDelete_def bind_def getLive_def ret_def)
next
  assume a: "find (\<lambda>x. sale_id x = sid) (sales (live w)) \<noteq> None"
  let ?s' = "(live w)\<lparr>sales := filter (\<lambda>x. sale_id x \<noteq> sid) (sales (live w))\<rparr>"
  let ?w1 = "w\<lparr>trace := trace w @ [Asked ConfirmDeleteSale]\<rparr>"
  have run: "saleDelete sid True now rid w =
      bind (saveState ?s' noOptions now rid) (\<lambda>_. ret Eliminada) (?w1\<lparr>live := ?s'\<rparr>)"
    using a by (auto simp: saleDelete_def bind_def getLive_def setLive_def confirm_def)
  show "live (snd (saleDelete sid False now rid w)) = live w"
    using a by (auto simp: saleDelete_def bind_def getLive_def confirm_def ret_def)
  show l: "live (snd (saleDelete sid True now rid w)) = ?s'"
    unfolding run by (simp add: bind_snd_saveState)
  show "products (live (snd (saleDelete sid True now rid w))) = products (live w)"
    "expenses (live (snd (saleDelete sid True now rid w))) = expenses (live w)"
    "tables (live (snd (saleDelete sid True now rid w))) = tables (live w)"
    unfolding l by simp_all
  assume d: "distinct (map sale_id (sales (live w)))"
  have ex: "\<exists>x \<in> set (sales (live w)). sale_id x = sid"
    using a by (auto simp: find_None_iff)
  show "Suc (length (sales (live (snd (saleDelete sid True now rid w))))) = length (sales (live w))"
    unfolding l using filter_one_out [OF d ex] by simp
qed

theorem saleDelete_frame_witness:
  "find (\<lambda>x. sale_id x = 11) (sales (live (freshWorld\<lparr>live := exLedger\<rparr>))) \<noteq> None
   \<and> distinct (map sale_id (sales (live (freshWorld\<lparr>live := exLedger\<rparr>))))
   \<and> map sale_id (sales (live (snd (saleDelete 11 True 0 ''dev'' (freshWorld\<lparr>live := exLedger\<rparr>))))) = [12]
   \<and> products (live (snd (saleDelete 11 True 0 ''dev'' (freshWorld\<lparr>live := exLedger\<rparr>)))) = products exLedger
   \<and> expenses (live (snd (saleDelete 11 True 0 ''dev'' (freshWorld\<lparr>live := exLedger\<rparr>)))) = expenses exLedger
   \<and> tables (live (snd (saleDelete 11 True 0 ''dev'' (freshWorld\<lparr>live := exLedger\<rparr>)))) = tables exLedger
   \<and> live (snd (saleDelete 11 False 0 ''dev'' (freshWorld\<lparr>live := exLedger\<rparr>))) = exLedger
   \<and> find (\<lambda>x. sale_id x = 99) (sales (live (freshWorld\<lparr>live := exLedger\<rparr>))) = None
   \<and> saleDelete 99 True 0 ''dev'' (freshWorld\<lparr>live := exLedger\<rparr>) = (Inr NoNotice, freshWorld\<lparr>live := exLedger\<rparr>)"
proof -
  have l: "live (freshWorld\<lparr>live := exLedger\<rparr>) = exLedger" by simp
  have h1: "find (\<lambda>x. sale_id x = 11) (sales exLedger) \<noteq> None" by (simp add: exLedger_def)
  have h2: "distinct (map sale_id (sales exLedger))" by (simp add: exLedger_def)
  have h3: "find (\<lambda>x. sale_id x = 99) (sales exLedger) = None" by (simp add: exLedger_def)
  have f: "map sale_id (filter (\<lambda>x. sale_id x \<noteq> 11) (sales exLedger)) = [12]" by (simp add: exLedger_def)
  show ?thesis
    using saleDelete_frame [of 11 "freshWorld\<lparr>live := exLedger\<rparr>" True 0 "''dev''"]
      saleDelete_frame [of 99 "freshWorld\<lparr>live := exLedger\<rparr>" True 0 "''dev''"] h1 h2 h3
    by (simp add: f)
qed

section \<open>The invariants of products and table sessions\<close>

lemma list_all_updateFirst:
  "list_all P xs \<Longrightarrow> (\<And>x. P (f x)) \<Longrightarrow> list_all P (updateFirst Q f xs)"
  by (induction xs) auto

lemma list_all_updateFirst_found:
  "list_all P xs \<Longrightarrow> find Q xs = Some p \<Longrightarrow> P (f p) \<Longrightarrow> list_all P (updateFirst Q f xs)"
  by (induction xs) (auto split: if_splits)

lemma bind_rerender:
  "bind (rerender byNameEs) f w = f () (w\<lparr>live := (live w)\<lparr>products := byNameEs (products (live w))\<rparr>\<rparr>)"
  by (simp add: rerender_def bind_def getLive_def setLive_def)

text \<open>
  \<open>rerender\<close> changes nothing but the order of the products: a sort returns the
  elements that it was given.
\<close>

lemma rerender_frame:
  assumes "\<And>xs. set (byNameEs xs) = set xs"
  shows "fst (rerender byNameEs w) = Inr ()
     \<and> set (products (live (snd (rerender byNameEs w)))) = set (products (live w))
     \<and> sales (live (snd (rerender byNameEs w))) = sales (live w)
     \<and> expenses (live (snd (rerender byNameEs w))) = expenses (live w)
     \<and> tables (live (snd (rerender byNameEs w))) = tables (live w)
     \<and> store (snd (rerender byNameEs w)) = store w
     \<and> trace (snd (rerender byNameEs w)) = trace w"
  using assms by (simp add: rerender_def bind_def getLive_def setLive_def)

text \<open>
  The product form keeps the invariant of the products: what it rejects is unchanged,
  and what it creates or edits has \<open>price \<ge> cost\<close>, \<open>stock \<ge> 0\<close>, \<open>stockMin \<ge> 0\<close>.
\<close>

lemma productFormSubmit_keeps_invariant:
  assumes "list_all productInv (products (live w))" and "\<And>xs. set (byNameEs xs) = set xs"
  shows "list_all productInv
     (products (live (snd (productFormSubmit byNameEs pid name0 cat cost0 price0 stock0 stockMin0
        newId now rid w))))"
proof -
  have b: "0 \<le> clampInt stock0 0 1000000" "0 \<le> clampInt stockMin0 0 1000000"
    using clampInt_bounds [of 0 1000000] by simp_all
  have g: "\<not> jsLess p c \<Longrightarrow> jsGe p (Finite 0) \<Longrightarrow> jsGe c (Finite 0) \<Longrightarrow> jsGe p c" for p c
    by (simp add: jsGe_def jsLess_def)
  have srt: "list_all productInv (byNameEs xs) = list_all productInv xs" for xs
    by (simp add: list_all_iff assms(2))
  show ?thesis
    using assms(1) b g [of "parseMoney price0" "parseMoney cost0"]
    by (auto simp: productFormSubmit_def Let_def bind_getLive bind_setLive bind_rerender ret_def
          bind_tryIgnore_live productInv_def srt intro!: list_all_updateFirst split: option.splits)
qed

text \<open>The sale form keeps it too: it sells only what is in stock.\<close>

lemma saleFormSubmit_keeps_invariant:
  assumes "list_all productInv (products (live w))"
  shows "list_all productInv
     (products (live (snd (saleFormSubmit pid qty0 notes0 newId now now2 rid w))))"
proof (cases "find (\<lambda>x. product_id x = pid) (products (live w))")
  case None
  then show ?thesis using assms
    by (simp add: saleFormSubmit_def Let_def bind_getLive ret_def)
next
  case (Some p)
  note t = saleFormSubmit_effect [OF Some, of qty0 notes0 newId now now2 rid]
  show ?thesis
  proof (cases "clampInt qty0 1 1000000 \<le> stock p")
    case False
    then show ?thesis using t assms by simp
  next
    case True
    have pin: "p \<in> set (products (live w))"
      using Some by (auto simp: find_Some_iff)
    have "productInv (p\<lparr>stock := stock p - clampInt qty0 1 1000000\<rparr>)"
      using assms pin True by (auto simp: productInv_def list_all_iff)
    then show ?thesis
      using t True list_all_updateFirst_found [OF assms Some] by simp
  qed
qed

lemma foldl_invariant:
  "P acc \<Longrightarrow> (\<And>a x. P a \<Longrightarrow> P (f a x)) \<Longrightarrow> P (foldl f acc xs)"
  by (induction xs arbitrary: acc) auto

text \<open>
  What the legacy importer does keep: every product it makes, the placeholders
  included, has \<open>stock \<ge> 0\<close> and \<open>stockMin \<ge> 0\<close>.
\<close>

lemma legacy_import_stock_nonnegative:
  assumes "isStateEmpty s"
  shows "list_all (\<lambda>p. 0 \<le> stock p \<and> 0 \<le> stockMin p)
     (products (fst (migrateFromLegacyBillarLocalStorageIntoState dp uuid clock legacy s)))"
proof -
  let ?P = "\<lambda>acc. list_all (\<lambda>p. 0 \<le> stock p \<and> 0 \<le> stockMin p) (products (next_state acc))"
  have b: "0 \<le> clampInt n 0 1000000" for n
    using clampInt_bounds [of 0 1000000 n] by simp
  have p1: "?P a \<Longrightarrow> ?P (importProduct uuid a x)" for a x
    by (simp add: importProduct_def Let_def b)
  have p2: "?P a \<Longrightarrow> ?P (importSale dp uuid clock a x)" for a x
    by (simp add: importSale_def Let_def split: option.splits)
  have p3: "?P a \<Longrightarrow> ?P (importTable dp uuid clock a x)" for a x
    by (simp add: importTable_def Let_def)
  have start: "?P \<lparr> next_state = emptyState\<lparr>business := business s\<rparr>, byName = Map.empty, calls = 0 \<rparr>"
    by (simp add: emptyState_def)
  have s0: "products s = []" using assms by (simp add: isStateEmpty_def)
  have run: "?P (foldl (importTable dp uuid clock)
        (foldl (importSale dp uuid clock)
          (foldl (importProduct uuid)
            \<lparr> next_state = emptyState\<lparr>business := business s\<rparr>, byName = Map.empty, calls = 0 \<rparr> xs) ys) zs)"
    for xs ys zs
    by (intro foldl_invariant [where P = ?P] start p1 p2 p3)
  show ?thesis
    using s0 run
    by (auto simp: migrateFromLegacyBillarLocalStorageIntoState_def Let_def split: option.splits)
qed

text \<open>
  Claim C7 at its failing input. The legacy importer takes cost and price as they
  are: a legacy product with cost 10 and price 5, and a legacy sale of an unknown
  product at price 10 with profit -5 (placeholder cost 15), both enter the state with
  \<open>price < cost\<close>.
\<close>

theorem legacy_import_breaks_product_invariant:
  "isStateEmpty emptyState
   \<and> map (\<lambda>p. (product_name p, cost p, price p))
        (products (fst (migrateFromLegacyBillarLocalStorageIntoState dateParseISO
           (\<lambda>k. 1000 + int k) (\<lambda>k. 0) (Some exLegacyLoss) emptyState)))
      = [(''Soda'', Finite 10, Finite 5), (''Taco'', Finite 15, Finite 10)]
   \<and> \<not> list_all productInv
        (products (fst (migrateFromLegacyBillarLocalStorageIntoState dateParseISO
           (\<lambda>k. 1000 + int k) (\<lambda>k. 0) (Some exLegacyLoss) emptyState)))"
  by code_simp

text \<open>
  The table form keeps at most one active session per table: it rejects a table
  number that has one, without changing the state.
\<close>

lemma tableFormSubmit_keeps_one_active:
  assumes "oneActivePerTable (live w)"
  shows "oneActivePerTable (live (snd (tableFormSubmit table0 players0 rate0 newId now now2 rid w)))
     \<and> (jsLess (Finite 0) (parseMoney rate0) \<and> (\<exists>t \<in> set (tables (live w)). active t \<and> table_no t = clampInt table0 1 100)
          \<longrightarrow> tableFormSubmit table0 players0 rate0 newId now now2 rid w = (Inr MesaActiva, w))"
  using assms
  by (auto simp: tableFormSubmit_def Let_def bind_getLive bind_setLive ret_def
        bind_snd_saveState oneActivePerTable_def find_None_iff split: option.splits)

text \<open>
  Claim C9 at its failing input. The legacy importer appends every legacy session
  that is not marked inactive, without looking for an active session on the same
  table: two legacy sessions on table 1 become two active sessions on table 1.
\<close>

theorem legacy_import_breaks_one_active_per_table:
  "isStateEmpty emptyState
   \<and> map (\<lambda>t. (table_no t, active t))
        (tables (fst (migrateFromLegacyBillarLocalStorageIntoState dateParseISO
           (\<lambda>k. 1000 + int k) (\<lambda>k. 0) (Some exLegacyTables) emptyState)))
      = [(1, True), (1, True)]
   \<and> \<not> oneActivePerTable
        (fst (migrateFromLegacyBillarLocalStorageIntoState dateParseISO
           (\<lambda>k. 1000 + int k) (\<lambda>k. 0) (Some exLegacyTables) emptyState))"
  by code_simp

end
